theory Spec2Isabelle
  imports Complex_Main
begin

section \<open>JSON values (r\_json, pj)\<close>

text \<open>
  The connector reads requests as \<^verbatim>\<open>RJson\<close> trees and writes responses with the
  \<^verbatim>\<open>PJ\<close> printer, both of the radare2 library. One tree type stands for both: a
  constructor per \<^verbatim>\<open>R_JSON_*\<close> tag, an object being the list of its members in
  document order. A response is the tree whose serialisation the \<^verbatim>\<open>pj_*\<close> calls
  (or the \<^verbatim>\<open>fprintf\<close> calls of \<^verbatim>\<open>handle_list_tools\<close>) write; text that the
  source splices in already serialised and that is kept verbatim here is \<open>PJ_RAW\<close>.
  \<open>R_JSON_INTEGER\<close> holds the number read (\<^verbatim>\<open>num.u_value\<close>; the casts to \<^verbatim>\<open>long long\<close> and
  \<^verbatim>\<open>int\<close> are \<open>int64\<close> and \<open>int32\<close> below). Strings are C strings: they hold no NUL
  byte.
\<close>

datatype RJson =
    R_JSON_NULL
  | R_JSON_OBJECT "(string \<times> RJson) list"
  | R_JSON_ARRAY "RJson list"
  | R_JSON_STRING string
  | R_JSON_INTEGER int
  | R_JSON_DOUBLE real
  | R_JSON_BOOLEAN bool
  | PJ_RAW string

text \<open>
  Library function \<^verbatim>\<open>r_json_get\<close>: the first member of an object with the given key,
  \<^verbatim>\<open>NULL\<close> when the value is \<^verbatim>\<open>NULL\<close>, is no object or has no such member.
\<close>

fun r_json_get :: "RJson option \<Rightarrow> string \<Rightarrow> RJson option" where
  "r_json_get (Some (R_JSON_OBJECT members)) key = map_of members key"
| "r_json_get _ key = None"

definition r_json_get_str :: "RJson option \<Rightarrow> string \<Rightarrow> string option" where
  "r_json_get_str json key =
     (case json of
        None \<Rightarrow> None
      | Some _ \<Rightarrow>
          (case r_json_get json key of
             Some (R_JSON_STRING str_value) \<Rightarrow> Some str_value
           | _ \<Rightarrow> None))"

text \<open>
  \<^verbatim>\<open>pj_ks\<close>: a string member. For a \<^verbatim>\<open>NULL\<close> value the library's argument check returns
  before anything is written.
\<close>

definition pj_ks :: "string \<Rightarrow> string option \<Rightarrow> (string \<times> RJson) list" where
  "pj_ks k v = (case v of None \<Rightarrow> [] | Some str \<Rightarrow> [(k, R_JSON_STRING str)])"

section \<open>C integers and libc text functions\<close>

text \<open>
  \<open>int32\<close> and \<open>int64\<close> are the conversions to \<^verbatim>\<open>int\<close> and \<^verbatim>\<open>long long\<close>: the
  value modulo \<open>2^32\<close> (\<open>2^64\<close>) read in two's complement. Arithmetic on \<^verbatim>\<open>int\<close>
  that leaves the range wraps the same way.
\<close>

definition int32 :: "int \<Rightarrow> int" where
  "int32 x = (x + 2147483648) mod 4294967296 - 2147483648"

definition int64 :: "int \<Rightarrow> int" where
  "int64 x = (x + 9223372036854775808) mod 18446744073709551616 - 9223372036854775808"

definition digit_char :: "nat \<Rightarrow> char" where
  "digit_char d = ''0123456789'' ! d"

function nat_dec :: "nat \<Rightarrow> string" where
  "nat_dec n = (if n < 10 then [digit_char n] else nat_dec (n div 10) @ [digit_char (n mod 10)])"
  by pat_completeness auto
termination
  by (relation "measure (\<lambda>n. n)") auto

declare nat_dec.simps [simp del]

text \<open>The conversion \<^verbatim>\<open>%d\<close> (and \<^verbatim>\<open>%lld\<close>) of \<^verbatim>\<open>printf\<close>.\<close>

definition printf_d :: "int \<Rightarrow> string" where
  "printf_d i = (if i < 0 then CHR ''-'' # nat_dec (nat (- i)) else nat_dec (nat i))"

text \<open>The conversion \<^verbatim>\<open>%s\<close>; glibc prints a \<^verbatim>\<open>NULL\<close> argument as \<^verbatim>\<open>(null)\<close>.\<close>

definition printf_s :: "string option \<Rightarrow> string" where
  "printf_s v = (case v of None \<Rightarrow> ''(null)'' | Some str \<Rightarrow> str)"

definition isspace :: "char \<Rightarrow> bool" where
  "isspace c = (c \<in> set [CHR '' '', CHR 0x09, CHR 0x0A, CHR 0x0B, CHR 0x0C, CHR 0x0D])"

definition isdigit :: "char \<Rightarrow> bool" where
  "isdigit c = (c \<in> set ''0123456789'')"

definition digit_val :: "char \<Rightarrow> int" where
  "digit_val c = int (of_char c) - 48"

fun strtol_digits :: "int \<Rightarrow> string \<Rightarrow> int" where
  "strtol_digits acc [] = acc"
| "strtol_digits acc (c # cs) =
     (if isdigit c then strtol_digits (acc * 10 + digit_val c) cs else acc)"

text \<open>
  \<^verbatim>\<open>strtol\<close> in base 10: white space, an optional sign, then the longest run of digits
  (the value 0 when there is none); a value outside \<^verbatim>\<open>long\<close> is replaced by
  \<^verbatim>\<open>LONG_MIN\<close> or \<^verbatim>\<open>LONG_MAX\<close>. \<^verbatim>\<open>atoi\<close> is its result converted to \<^verbatim>\<open>int\<close>, as in
  glibc (the C standard leaves \<^verbatim>\<open>atoi\<close> undefined outside the range of \<^verbatim>\<open>int\<close>).
\<close>

definition strtol :: "string \<Rightarrow> int" where
  "strtol nptr =
     (let s = dropWhile isspace nptr in
      case s of
        [] \<Rightarrow> 0
      | c # cs \<Rightarrow>
          if c = CHR ''-'' then max (- 9223372036854775808) (- strtol_digits 0 cs)
          else if c = CHR ''+'' then min 9223372036854775807 (strtol_digits 0 cs)
          else min 9223372036854775807 (strtol_digits 0 s))"

definition atoi :: "string \<Rightarrow> int" where
  "atoi nptr = int32 (strtol nptr)"

text \<open>
  \<^verbatim>\<open>format_string\<close> prints into a buffer of 4096 bytes with \<^verbatim>\<open>vsnprintf\<close>: the
  text is cut after 4095 characters. Its argument here is the formatted text.
\<close>

definition format_string :: "string \<Rightarrow> string" where
  "format_string formatted = take 4095 formatted"

section \<open>The analysis backend\<close>

text \<open>
  The radare2 core is outside the repository. A core is represented by the calls made on
  it so far, in order; what a call answers is a function of that history, given by the
  environment. So a handler that leaves the core unchanged has made no call on it.
  The environment also says whether \<^verbatim>\<open>r_core_new\<close> and \<^verbatim>\<open>open_memstream\<close> succeed.
\<close>

datatype r2_call =
    R_config_set_i string int
  | R_core_cmd0 string
  | R_core_cmd_str string
  | R_core_file_open string
  | R_core_bin_load string

type_synonym RCore = "r2_call list"

record Env =
  r_core_new_ok :: bool
  r_core_cmd_str_out :: "RCore \<Rightarrow> string \<Rightarrow> string option"
  r_core_file_open_ok :: "RCore \<Rightarrow> string \<Rightarrow> bool"
  open_memstream_ok :: bool

section \<open>Global state\<close>

record ServerInfo =
  name :: string
  version :: string

record ServerCapabilities =
  logging :: bool
  tools :: bool

text \<open>
  \<open>client_capabilities\<close> and \<open>client_info\<close> are pointers into the tree of the request that
  set them. \<^verbatim>\<open>process_mcp_message\<close> frees that tree when it is done with the request, so a
  stored pointer is \<open>NULL\<close>, or \<open>Live\<close> (it points into the tree of the request being
  handled), or \<open>Dangling\<close> (its tree has been freed). Freeing through a stored pointer, or
  reading through a dangling one, is undefined behaviour: a \<open>fault\<close>, after which the
  program has no defined result.
\<close>

datatype RJsonPtr = NULL | Live RJson | Dangling

datatype fault = Double_free | Use_after_free

record ServerState =
  info :: ServerInfo
  capabilities :: ServerCapabilities
  instructions :: "string option"
  initialized :: bool
  client_capabilities :: RJsonPtr
  client_info :: RJsonPtr

text \<open>
  The globals of the program, and \<open>stdout\<close>: the response lines written so far, one tree
  per line. Diagnostics on \<^verbatim>\<open>stderr\<close> are not part of the model. \<open>current_file\<close> is the
  C string held in the array of 1024 bytes.
\<close>

record Globals =
  r_core :: "RCore option"
  file_opened :: bool
  current_file :: string
  server_state :: ServerState
  stdout :: "RJson list"

definition initial_server_state :: ServerState where
  "initial_server_state =
     \<lparr> info = \<lparr> name = ''Radare2 MCP Connector'', version = ''1.0.0'' \<rparr>,
       capabilities = \<lparr> logging = True, tools = True \<rparr>,
       instructions = Some ''Use this server to analyze binaries with radare2'',
       initialized = False,
       client_capabilities = NULL,
       client_info = NULL \<rparr>"

definition initial_globals :: Globals where
  "initial_globals =
     \<lparr> r_core = None, file_opened = False, current_file = [],
       server_state = initial_server_state, stdout = [] \<rparr>"

section \<open>Backend calls\<close>

definition r_core_cmd0 :: "string \<Rightarrow> Globals \<Rightarrow> Globals" where
  "r_core_cmd0 cmd s = s\<lparr> r_core := map_option (\<lambda>h. h @ [R_core_cmd0 cmd]) (r_core s) \<rparr>"

definition r_core_cmd_str :: "Env \<Rightarrow> string \<Rightarrow> Globals \<Rightarrow> string option \<times> Globals" where
  "r_core_cmd_str E cmd s =
     (case r_core s of
        None \<Rightarrow> (None, s)
      | Some h \<Rightarrow> (r_core_cmd_str_out E h cmd, s\<lparr> r_core := Some (h @ [R_core_cmd_str cmd]) \<rparr>))"

definition r_core_file_open :: "Env \<Rightarrow> string \<Rightarrow> Globals \<Rightarrow> bool \<times> Globals" where
  "r_core_file_open E filepath s =
     (case r_core s of
        None \<Rightarrow> (False, s)
      | Some h \<Rightarrow> (r_core_file_open_ok E h filepath,
                   s\<lparr> r_core := Some (h @ [R_core_file_open filepath]) \<rparr>))"

definition r_core_bin_load :: "string \<Rightarrow> Globals \<Rightarrow> Globals" where
  "r_core_bin_load filepath s =
     s\<lparr> r_core := map_option (\<lambda>h. h @ [R_core_bin_load filepath]) (r_core s) \<rparr>"

definition init_r2 :: "Env \<Rightarrow> Globals \<Rightarrow> bool \<times> Globals" where
  "init_r2 E s =
     (if \<not> r_core_new_ok E then (False, s\<lparr> r_core := None \<rparr>)
      else (True, s\<lparr> r_core := Some [R_config_set_i ''scr.color'' 0] \<rparr>))"

definition r2_open_file_finish :: "string \<Rightarrow> Globals \<Rightarrow> bool \<times> Globals" where
  "r2_open_file_finish filepath s =
     (True, (r_core_cmd0 ''ob'' s)\<lparr> current_file := take 1023 filepath, file_opened := True \<rparr>)"

definition r2_open_file :: "Env \<Rightarrow> string \<Rightarrow> Globals \<Rightarrow> bool \<times> Globals" where
  "r2_open_file E filepath s0 =
     (let (ready, s1) = (if r_core s0 = None then init_r2 E s0 else (True, s0)) in
      if \<not> ready then (False, s1)
      else
        let s2 = (if file_opened s1
                  then (r_core_cmd0 ''o-*'' s1)\<lparr> file_opened := False, current_file := [] \<rparr>
                  else s1);
            s3 = r_core_cmd0 ''e bin.relocs.apply=true'' s2;
            s4 = r_core_cmd0 ''e bin.cache=true'' s3;
            cmd = take 1023 (''o '' @ filepath);
            (result, s5) = r_core_cmd_str E cmd s4;
            success = (case result of None \<Rightarrow> False | Some r \<Rightarrow> 0 < length r)
        in if \<not> success
           then (let (fd, s6) = r_core_file_open E filepath s5 in
                 if fd then r2_open_file_finish filepath (r_core_bin_load filepath s6)
                 else (False, s6))
           else r2_open_file_finish filepath s5)"

definition r2_cmd :: "Env \<Rightarrow> string \<Rightarrow> Globals \<Rightarrow> string option \<times> Globals" where
  "r2_cmd E cmd s =
     (if r_core s = None \<or> \<not> file_opened s then (Some ''Error: No file is open'', s)
      else r_core_cmd_str E cmd s)"

definition r2_analyze :: "string \<Rightarrow> Globals \<Rightarrow> bool \<times> Globals" where
  "r2_analyze level s =
     (if r_core s = None \<or> \<not> file_opened s then (False, s)
      else (True, r_core_cmd0 (take 31 level) s))"

section \<open>Capability checks\<close>

text \<open>
  \<^verbatim>\<open>r_json_get\<close> on the stored pointer reads the tree it points into; after the request
  that set it, that tree is freed memory.
\<close>

definition check_client_capability :: "string \<Rightarrow> Globals \<Rightarrow> fault + bool" where
  "check_client_capability capability s =
     (case client_capabilities (server_state s) of
        NULL \<Rightarrow> Inr False
      | Live caps \<Rightarrow> Inr (r_json_get (Some caps) capability \<noteq> None)
      | Dangling \<Rightarrow> Inl Use_after_free)"

definition check_server_capability :: "string \<Rightarrow> Globals \<Rightarrow> bool" where
  "check_server_capability capability s =
     (if capability = ''logging'' then logging (capabilities (server_state s))
      else if capability = ''tools'' then tools (capabilities (server_state s))
      else False)"

text \<open>
  The two assertions return \<^verbatim>\<open>false\<close> with an error message, or \<^verbatim>\<open>true\<close>: here
  \<open>Some\<close> of the message, or \<open>None\<close>. The first one reads the client's capabilities.
\<close>

definition assert_capability_for_method :: "string \<Rightarrow> Globals \<Rightarrow> fault + string option" where
  "assert_capability_for_method method s =
     (if method = ''sampling/createMessage'' then
        (case check_client_capability ''sampling'' s of
           Inl f \<Rightarrow> Inl f
         | Inr supported \<Rightarrow>
             Inr (if \<not> supported then Some ''Client does not support sampling'' else None))
      else if method = ''roots/list'' then
        (case check_client_capability ''roots'' s of
           Inl f \<Rightarrow> Inl f
         | Inr supported \<Rightarrow>
             Inr (if \<not> supported then Some ''Client does not support listing roots''
                  else None))
      else Inr None)"

definition assert_request_handler_capability :: "string \<Rightarrow> Globals \<Rightarrow> string option" where
  "assert_request_handler_capability method s =
     (if method = ''sampling/createMessage'' then
        (if \<not> check_server_capability ''sampling'' s
         then Some ''Server does not support sampling'' else None)
      else if method = ''logging/setLevel'' then
        (if \<not> check_server_capability ''logging'' s
         then Some ''Server does not support logging'' else None)
      else if take 8 method = ''prompts/'' then
        (if \<not> check_server_capability ''prompts'' s
         then Some ''Server does not support prompts'' else None)
      else if take 6 method = ''tools/'' then
        (if \<not> check_server_capability ''tools'' s
         then Some ''Server does not support tools'' else None)
      else None)"

section \<open>Response envelopes\<close>

definition create_error_response ::
  "int \<Rightarrow> string \<Rightarrow> string option \<Rightarrow> string option \<Rightarrow> RJson" where
  "create_error_response code message rid uri =
     R_JSON_OBJECT
       ([(''jsonrpc'', R_JSON_STRING ''2.0'')] @
        (case rid of None \<Rightarrow> [] | Some i \<Rightarrow> pj_ks ''id'' (Some i)) @
        [(''error'',
          R_JSON_OBJECT
            ([(''code'', R_JSON_INTEGER code)] @
             pj_ks ''message'' (Some message) @
             (case uri of
                None \<Rightarrow> []
              | Some u \<Rightarrow> [(''data'', R_JSON_OBJECT (pj_ks ''uri'' (Some u)))])))])"

definition create_success_response :: "RJson option \<Rightarrow> string option \<Rightarrow> RJson" where
  "create_success_response result rid =
     R_JSON_OBJECT
       ([(''jsonrpc'', R_JSON_STRING ''2.0'')] @
        (case rid of None \<Rightarrow> [] | Some i \<Rightarrow> pj_ks ''id'' (Some i)) @
        [(''result'', (case result of Some r \<Rightarrow> r | None \<Rightarrow> R_JSON_NULL))])"

definition create_tool_error_response :: "string \<Rightarrow> RJson" where
  "create_tool_error_response error_message =
     R_JSON_OBJECT
       [(''content'',
         R_JSON_ARRAY
           [R_JSON_OBJECT
              ([(''type'', R_JSON_STRING ''text'')] @ pj_ks ''text'' (Some error_message))]),
        (''isError'', R_JSON_BOOLEAN True)]"

definition create_tool_text_response :: "string option \<Rightarrow> RJson" where
  "create_tool_text_response text_value =
     R_JSON_OBJECT
       [(''content'',
         R_JSON_ARRAY
           [R_JSON_OBJECT ([(''type'', R_JSON_STRING ''text'')] @ pj_ks ''text'' text_value)])]"

section \<open>Handlers\<close>

definition get_capabilities :: RJson where
  "get_capabilities = R_JSON_OBJECT [(''tools'', R_JSON_OBJECT [])]"

text \<open>
  \<^verbatim>\<open>handle_initialize\<close> first calls \<^verbatim>\<open>r_json_free\<close> on each stored pointer that is not
  \<^verbatim>\<open>NULL\<close>. Such a pointer is into the tree of a request, which \<^verbatim>\<open>process_mcp_message\<close>
  has freed already or frees after this call: the memory is freed twice. Then it stores
  the pointers \<^verbatim>\<open>r_json_get\<close> returns for the params of this request.
\<close>

definition r_json_ptr :: "RJson option \<Rightarrow> RJsonPtr" where
  "r_json_ptr found = (case found of None \<Rightarrow> NULL | Some v \<Rightarrow> Live v)"

definition handle_initialize :: "RJson option \<Rightarrow> Globals \<Rightarrow> fault + RJson \<times> Globals" where
  "handle_initialize params s =
     (if client_capabilities (server_state s) \<noteq> NULL then Inl Double_free
      else if client_info (server_state s) \<noteq> NULL then Inl Double_free
      else
      let st = (server_state s)
                 \<lparr> client_capabilities := r_json_ptr (r_json_get params ''capabilities''),
                   client_info := r_json_ptr (r_json_get params ''clientInfo'') \<rparr>;
          result =
            R_JSON_OBJECT
              (pj_ks ''protocolVersion'' (Some ''2024-11-05'') @
               [(''serverInfo'',
                 R_JSON_OBJECT
                   (pj_ks ''name'' (Some (name (info st))) @
                    pj_ks ''version'' (Some (version (info st)))))] @
               [(''capabilities'', get_capabilities)] @
               (case instructions st of
                  None \<Rightarrow> []
                | Some text_value \<Rightarrow> pj_ks ''instructions'' (Some text_value)))
      in Inr (result, s\<lparr> server_state := st\<lparr> initialized := True \<rparr> \<rparr>))"

text \<open>
  The tool table of \<^verbatim>\<open>handle_list_tools\<close>: name, description, schema text. An entry is
  printed as an object with the members \<open>name\<close>, \<open>description\<close> and \<open>inputSchema\<close>, the
  schema text as it is.
\<close>

definition tools_table :: "(string \<times> string \<times> string) list" where
  "tools_table =
     [(''openFile'',
       ''Open a file for analysis'',
       ''{\"type\":\"object\",\"properties\":{\"filePath\":{\"type\":\"string\",\"description\":\"Path to the file to open\"}},\"required\":[\"filePath\"]}''),
      (''closeFile'',
       ''Close the currently open file'',
       ''{\"type\":\"object\",\"properties\":{}}''),
      (''runCommand'',
       ''Run a radare2 command and get the output'',
       ''{\"type\":\"object\",\"properties\":{\"command\":{\"type\":\"string\",\"description\":\"Command to execute\"}},\"required\":[\"command\"]}''),
      (''analyze'',
       ''Run analysis on the current file'',
       ''{\"type\":\"object\",\"properties\":{\"level\":{\"type\":\"string\",\"description\":\"Analysis level (a, aa, aaa, aaaa)\"}},\"required\":[]}''),
      (''disassemble'',
       ''Disassemble instructions at a given address'',
       ''{\"type\":\"object\",\"properties\":{\"address\":{\"type\":\"string\",\"description\":\"Address to start disassembly\"},\"numInstructions\":{\"type\":\"integer\",\"description\":\"Number of instructions to disassemble\"}},\"required\":[\"address\"]}'')]"

definition tool_entry :: "string \<times> string \<times> string \<Rightarrow> RJson" where
  "tool_entry t =
     (case t of (tool_name, description, schema) \<Rightarrow>
        R_JSON_OBJECT
          [(''name'', R_JSON_STRING tool_name),
           (''description'', R_JSON_STRING description),
           (''inputSchema'', PJ_RAW schema)])"

text \<open>
  The loop runs \<open>i\<close> from \<open>start_index\<close> while \<open>i < end_index\<close>; there
  \<open>0 \<le> start_index\<close> and \<open>end_index \<le> total_tools\<close>, so every \<open>tools[i]\<close> read is
  inside the table. \<open>start_index + page_size\<close> is an \<^verbatim>\<open>int\<close> addition. When
  \<^verbatim>\<open>open_memstream\<close> fails the function returns an empty list.
\<close>

definition handle_list_tools :: "Env \<Rightarrow> RJson option \<Rightarrow> RJson" where
  "handle_list_tools E params =
     (let cursor = r_json_get_str params ''cursor'';
          page_size = 10;
          start_index = (case cursor of
                           None \<Rightarrow> 0
                         | Some c \<Rightarrow> (if atoi c < 0 then 0 else atoi c))
      in if \<not> open_memstream_ok E then R_JSON_OBJECT [(''tools'', R_JSON_ARRAY [])]
         else
           let total_tools = int (length tools_table);
               end_index = (if int32 (start_index + page_size) > total_tools
                            then total_tools else int32 (start_index + page_size))
           in R_JSON_OBJECT
                ([(''tools'',
                   R_JSON_ARRAY
                     (map (\<lambda>i. tool_entry (tools_table ! nat i)) [start_index..end_index - 1]))] @
                 (if end_index < total_tools
                  then [(''nextCursor'', R_JSON_STRING (printf_d end_index))]
                  else [])))"

definition handle_call_tool :: "Env \<Rightarrow> RJson option \<Rightarrow> Globals \<Rightarrow> RJson \<times> Globals" where
  "handle_call_tool E params s =
     (case r_json_get_str params ''name'' of
        None \<Rightarrow>
          (create_error_response (- 32602) ''Missing required parameter: name'' None None, s)
      | Some tool_name \<Rightarrow>
          let tool_args = r_json_get params ''arguments'' in
          if tool_name = ''openFile'' then
            (case r_json_get_str tool_args ''filePath'' of
               None \<Rightarrow>
                 (create_error_response (- 32602) ''Missing required parameter: filePath''
                    None None, s)
             | Some filepath \<Rightarrow>
                 (let (success, s') = r2_open_file E filepath s in
                  (create_tool_text_response
                     (Some (if success then ''File opened successfully.''
                            else ''Failed to open file.'')), s')))
          else if tool_name = ''closeFile'' then
            (if \<not> file_opened s then (create_tool_text_response (Some ''No file was open.''), s)
             else
               (create_tool_text_response (Some ''File closed successfully.''),
                if r_core s \<noteq> None
                then (r_core_cmd0 ''o-*'' s)\<lparr> file_opened := False, current_file := [] \<rparr>
                else s))
          else if \<not> file_opened s \<and>
                  (tool_name = ''runCommand'' \<or> tool_name = ''analyze'' \<or>
                   tool_name = ''disassemble'') then
            (create_tool_error_response
               ''No file is currently open. Please open a file first.'', s)
          else if tool_name = ''runCommand'' then
            (case r_json_get_str tool_args ''command'' of
               None \<Rightarrow>
                 (create_error_response (- 32602) ''Missing required parameter: command''
                    None None, s)
             | Some command \<Rightarrow>
                 (let (result, s') = r2_cmd E command s in
                  (create_tool_text_response result, s')))
          else if tool_name = ''analyze'' then
            (let level = (case r_json_get_str tool_args ''level'' of
                            None \<Rightarrow> ''aaa'' | Some l \<Rightarrow> l);
                 (done_flag, s1) = r2_analyze level s;
                 (result, s2) = r2_cmd E ''afl'' s1;
                 text_value = format_string
                   (''Analysis completed with level '' @ level @ [CHR ''.'', CHR 0x0A, CHR 0x0A] @
                    printf_s result)
             in (create_tool_text_response (Some text_value), s2))
          else if tool_name = ''disassemble'' then
            (case r_json_get_str tool_args ''address'' of
               None \<Rightarrow>
                 (create_error_response (- 32602) ''Missing required parameter: address''
                    None None, s)
             | Some address \<Rightarrow>
                 (let num_instr_json = r_json_get tool_args ''numInstructions'';
                      num_instructions =
                        (case num_instr_json of
                           Some (R_JSON_INTEGER u_value) \<Rightarrow> int32 u_value
                         | _ \<Rightarrow> 10);
                      cmd = take 127 (''pd '' @ printf_d num_instructions @ '' @ '' @ address);
                      (disasm, s') = r2_cmd E cmd s
                  in (create_tool_text_response disasm, s')))
          else
            (create_error_response (- 32602)
               (format_string (''Unknown tool: '' @ tool_name)) None None, s))"

section \<open>Dispatch\<close>

definition handle_mcp_request ::
  "Env \<Rightarrow> string \<Rightarrow> RJson option \<Rightarrow> string option \<Rightarrow> Globals \<Rightarrow>
     fault + RJson \<times> Globals" where
  "handle_mcp_request E method params rid s =
     (case assert_capability_for_method method s of
        Inl f \<Rightarrow> Inl f
      | Inr (Some error) \<Rightarrow> Inr (create_error_response (- 32601) error rid None, s)
      | Inr None \<Rightarrow>
     (case assert_request_handler_capability method s of
        Some error \<Rightarrow> Inr (create_error_response (- 32601) error rid None, s)
      | None \<Rightarrow>
          if method = ''initialize'' then
            (case handle_initialize params s of
               Inl f \<Rightarrow> Inl f
             | Inr (result, s') \<Rightarrow> Inr (create_success_response (Some result) rid, s'))
          else if method = ''ping'' then
            Inr (create_success_response (Some (R_JSON_OBJECT [])) rid, s)
          else if method = ''resources/templates/list'' then
            Inr (create_error_response (- 32601)
                   ''Method not implemented: templates are not supported'' rid None, s)
          else if method = ''resources/list'' then
            Inr (create_error_response (- 32601)
                   ''Method not implemented: resources are not supported'' rid None, s)
          else if method = ''resources/read'' \<or> method = ''resource/read'' then
            Inr (create_error_response (- 32601)
                   ''Method not implemented: resources are not supported'' rid None, s)
          else if method = ''resources/subscribe'' \<or> method = ''resource/subscribe'' then
            Inr (create_error_response (- 32601)
                   ''Method not implemented: subscriptions are not supported'' rid None, s)
          else if method = ''tools/list'' \<or> method = ''tool/list'' then
            Inr (create_success_response (Some (handle_list_tools E params)) rid, s)
          else if method = ''tools/call'' \<or> method = ''tool/call'' then
            (let (result, s') = handle_call_tool E params s in
             Inr (create_success_response (Some result) rid, s'))
          else Inr (create_error_response (- 32601) ''Unknown method'' rid None, s)))"

text \<open>
  \<^verbatim>\<open>r_json_free(request)\<close>: the tree of the request is freed, so the stored pointers into
  it dangle from then on.
\<close>

definition dangle :: "RJsonPtr \<Rightarrow> RJsonPtr" where
  "dangle p = (case p of Live v \<Rightarrow> Dangling | NULL \<Rightarrow> NULL | Dangling \<Rightarrow> Dangling)"

definition r_json_free_request :: "Globals \<Rightarrow> Globals" where
  "r_json_free_request s =
     s\<lparr> server_state := (server_state s)
           \<lparr> client_capabilities := dangle (client_capabilities (server_state s)),
             client_info := dangle (client_info (server_state s)) \<rparr> \<rparr>"

text \<open>
  \<open>request\<close> is what \<^verbatim>\<open>r_json_parse\<close> made of the message: \<open>None\<close> when it is not
  JSON. An integer \<open>id\<close> is printed with \<^verbatim>\<open>%lld\<close>. The response is written to
  \<open>stdout\<close> as one line; the request is freed on every path that parsed it.
\<close>

definition process_mcp_message :: "Env \<Rightarrow> RJson option \<Rightarrow> Globals \<Rightarrow> fault + Globals" where
  "process_mcp_message E request s =
     (case request of
        None \<Rightarrow> Inr s
      | Some _ \<Rightarrow>
          let method_opt = r_json_get_str request ''method'';
              params = r_json_get request ''params'';
              id_json = r_json_get request ''id''
          in case method_opt of
               None \<Rightarrow> Inr (r_json_free_request s)
             | Some method \<Rightarrow>
                 (case id_json of
                    Some j \<Rightarrow>
                      let rid = (case j of
                                   R_JSON_STRING str_value \<Rightarrow> Some str_value
                                 | R_JSON_INTEGER u_value \<Rightarrow> Some (printf_d (int64 u_value))
                                 | _ \<Rightarrow> None)
                      in (case handle_mcp_request E method params rid s of
                            Inl f \<Rightarrow> Inl f
                          | Inr (response, s') \<Rightarrow>
                              Inr (r_json_free_request
                                     (s'\<lparr> stdout := stdout s' @ [response] \<rparr>)))
                  | None \<Rightarrow> Inr (r_json_free_request s)))"

section \<open>Framing: the read buffer\<close>

text \<open>
  \<open>data\<close> holds the bytes of the allocated block that have been written (\<^verbatim>\<open>malloc\<close> and
  \<^verbatim>\<open>realloc\<close> leave the others indeterminate); the first \<open>bsize\<close> of them are in use
  (\<open>bsize\<close> is the field \<^verbatim>\<open>size\<close>). Sizes are \<^verbatim>\<open>size_t\<close> values of objects in memory:
  their sums and the doubled capacity stay below \<open>2^64\<close>, so they are natural numbers here.
\<close>

record ReadBuffer =
  data :: string
  bsize :: nat
  capacity :: nat

definition BUFFER_SIZE :: nat where
  "BUFFER_SIZE = 65536"

definition READ_CHUNK_SIZE :: nat where
  "READ_CHUNK_SIZE = 4096"

definition newline :: char where
  "newline = CHR 0x0A"

definition read_buffer_new :: ReadBuffer where
  "read_buffer_new = \<lparr> data = [], bsize = 0, capacity = BUFFER_SIZE \<rparr>"

text \<open>
  \<^verbatim>\<open>memcpy(buf->data + buf->size, data, len)\<close>, then \<^verbatim>\<open>buf->size += len\<close>. Writing past the
  end of the block is undefined behaviour: \<open>None\<close>.
\<close>

definition buffer_write :: "ReadBuffer \<Rightarrow> string \<Rightarrow> ReadBuffer option" where
  "buffer_write buf bytes =
     (if bsize buf + length bytes > capacity buf then None
      else Some (buf\<lparr> data := take (bsize buf) (data buf) @ bytes @
                                  drop (bsize buf + length bytes) (data buf),
                        bsize := bsize buf + length bytes \<rparr>))"

text \<open>
  \<open>realloc_ok n\<close>: \<^verbatim>\<open>realloc\<close> to \<open>n\<close> bytes succeeds. When it fails the function returns
  and the bytes are not appended. The capacity is doubled once, whatever \<open>len\<close> is.
\<close>

definition read_buffer_append ::
  "(nat \<Rightarrow> bool) \<Rightarrow> ReadBuffer \<Rightarrow> string \<Rightarrow> ReadBuffer option" where
  "read_buffer_append realloc_ok buf bytes =
     (if bsize buf + length bytes > capacity buf then
        (let new_capacity = capacity buf * 2 in
         if \<not> realloc_ok new_capacity then Some buf
         else buffer_write (buf\<lparr> capacity := new_capacity \<rparr>) bytes)
      else buffer_write buf bytes)"

text \<open>\<^verbatim>\<open>memchr(s, c, n)\<close>: the offset of the first \<open>c\<close> among the first \<open>n\<close> bytes.\<close>

definition memchr :: "string \<Rightarrow> char \<Rightarrow> nat \<Rightarrow> nat option" where
  "memchr s c n =
     (if c \<in> set (take n s) then Some (length (takeWhile (\<lambda>x. x \<noteq> c) (take n s)))
      else None)"

text \<open>
  The message returned is the \<open>msg_len\<close> bytes copied out of the buffer (the caller reads
  them as a C string). \<^verbatim>\<open>memmove\<close> copies the \<open>remaining\<close> bytes after the newline to the
  start of the block.
\<close>

definition read_buffer_get_message :: "ReadBuffer \<Rightarrow> (string \<times> ReadBuffer) option" where
  "read_buffer_get_message buf =
     (case memchr (data buf) newline (bsize buf) of
        None \<Rightarrow> None
      | Some msg_len \<Rightarrow>
          (let msg = take msg_len (data buf);
               remaining = bsize buf - (msg_len + 1);
               moved = (if 0 < remaining
                        then take remaining (drop (msg_len + 1) (data buf)) @
                             drop remaining (data buf)
                        else data buf)
           in Some (msg, buf\<lparr> data := moved, bsize := remaining \<rparr>)))"

text \<open>
  The inner loop of \<^verbatim>\<open>direct_mode_loop\<close>:
  \<^verbatim>\<open>while ((msg = read_buffer_get_message(buffer)) != NULL)\<close>, collecting the messages
  it hands to \<^verbatim>\<open>process_mcp_message\<close>.
\<close>

function extract_messages :: "ReadBuffer \<Rightarrow> string list \<times> ReadBuffer" where
  "extract_messages buf =
     (case read_buffer_get_message buf of
        None \<Rightarrow> ([], buf)
      | Some (msg, buf') \<Rightarrow>
          (let (msgs, buf'') = extract_messages buf' in (msg # msgs, buf'')))"
  by pat_completeness auto
termination
proof (relation "measure bsize")
  show "wf (measure bsize)" by simp
next
  fix buf :: ReadBuffer and x2 :: "string \<times> ReadBuffer" and msg buf'
  assume got: "read_buffer_get_message buf = Some x2" and pair: "(msg, buf') = x2"
  from got obtain msg_len where found: "memchr (data buf) newline (bsize buf) = Some msg_len"
    and rest: "bsize (snd x2) = bsize buf - (msg_len + 1)"
    by (auto simp add: read_buffer_get_message_def Let_def split: option.splits)
  define used where "used = take (bsize buf) (data buf)"
  from found have inside: "newline \<in> set used"
    and len: "msg_len = length (takeWhile (\<lambda>x. x \<noteq> newline) used)"
    by (simp_all add: memchr_def used_def split: if_splits)
  have "length (takeWhile (\<lambda>x. x \<noteq> newline) used) +
        length (dropWhile (\<lambda>x. x \<noteq> newline) used) = length used"
    by (simp only: length_append [symmetric] takeWhile_dropWhile_id)
  moreover from inside have "0 < length (dropWhile (\<lambda>x. x \<noteq> newline) used)"
    by (simp add: dropWhile_eq_Nil_conv)
  moreover have "length used \<le> bsize buf"
    by (simp add: used_def)
  ultimately have "msg_len < bsize buf"
    using len by linarith
  with rest pair show "(buf', buf) \<in> measure bsize" by auto
qed

declare extract_messages.simps [simp del]

text \<open>
  The reads of \<^verbatim>\<open>direct_mode_loop\<close>: each chunk read (in the loop, between 1 and
  \<open>READ_CHUNK_SIZE\<close> bytes) is appended, then the messages are extracted. The result is
  the messages in the order extracted and the buffer left; \<open>None\<close> when an append would
  write past the block.
\<close>

fun direct_mode_reads ::
  "(nat \<Rightarrow> bool) \<Rightarrow> ReadBuffer \<Rightarrow> string list \<Rightarrow> (string list \<times> ReadBuffer) option" where
  "direct_mode_reads realloc_ok buf [] = Some ([], buf)"
| "direct_mode_reads realloc_ok buf (chunk # chunks) =
     (case read_buffer_append realloc_ok buf chunk of
        None \<Rightarrow> None
      | Some buf1 \<Rightarrow>
          (let (msgs, buf2) = extract_messages buf1 in
           case direct_mode_reads realloc_ok buf2 chunks of
             None \<Rightarrow> None
           | Some (msgs', buf3) \<Rightarrow> Some (msgs @ msgs', buf3)))"

text \<open>
  What the framing properties speak of: the bytes in use, and the newline-terminated
  messages of a byte sequence with the unterminated rest.
\<close>

definition in_use :: "ReadBuffer \<Rightarrow> string" where
  "in_use buf = take (bsize buf) (data buf)"

fun messages_of :: "string \<Rightarrow> string list \<times> string" where
  "messages_of [] = ([], [])"
| "messages_of (c # cs) =
     (let (msgs, rest) = messages_of cs in
      if c = newline then ([] # msgs, rest)
      else (case msgs of
              [] \<Rightarrow> ([], c # rest)
            | m # msgs' \<Rightarrow> ((c # m) # msgs', rest)))"

text \<open>
  The buffer is well formed when the bytes in use have been written and fit the block.
\<close>

definition buffer_ok :: "ReadBuffer \<Rightarrow> bool" where
  "buffer_ok buf = (bsize buf \<le> length (data buf) \<and> bsize buf \<le> capacity buf)"

section \<open>A run of the program\<close>

text \<open>
  \<open>stub_env\<close> is a fixed environment for evaluating the program on concrete inputs: the
  library calls succeed and every command answers \<open>ok\<close>, except that the file
  \<^verbatim>\<open>/nonexistent\<close> cannot be opened by either method.
\<close>

definition stub_env :: Env where
  "stub_env =
     \<lparr> r_core_new_ok = True,
       r_core_cmd_str_out = (\<lambda>h cmd. if cmd = ''o /nonexistent'' then Some [] else Some ''ok''),
       r_core_file_open_ok = (\<lambda>h filepath. filepath \<noteq> ''/nonexistent''),
       open_memstream_ok = True \<rparr>"

text \<open>
  \<^verbatim>\<open>main\<close> calls \<^verbatim>\<open>init_r2\<close> and leaves when it fails; after that the loop hands every
  message to \<^verbatim>\<open>process_mcp_message\<close>. \<open>reachable E s\<close>: the globals can be \<open>s\<close> between
  two messages of a run without a fault.
\<close>

inductive reachable :: "Env \<Rightarrow> Globals \<Rightarrow> bool" for E :: Env where
  started: "r_core_new_ok E \<Longrightarrow> reachable E (snd (init_r2 E initial_globals))"
| message: "reachable E s \<Longrightarrow> process_mcp_message E request s = Inr s' \<Longrightarrow> reachable E s'"

definition stub_start :: Globals where
  "stub_start = snd (init_r2 stub_env initial_globals)"


fun is_R_JSON_INTEGER :: "RJson \<Rightarrow> bool" where
  "is_R_JSON_INTEGER (R_JSON_INTEGER v) = True"
| "is_R_JSON_INTEGER _ = False"

text \<open>
  An unparsable cursor: after white space and an optional sign the text does not go on
  with a digit.
\<close>

definition unparsable :: "string \<Rightarrow> bool" where
  "unparsable nptr =
     (case dropWhile isspace nptr of
        [] \<Rightarrow> True
      | c # cs \<Rightarrow>
          if c = CHR ''-'' \<or> c = CHR ''+''
          then (case cs of [] \<Rightarrow> True | d # ds \<Rightarrow> \<not> isdigit d)
          else \<not> isdigit c)"

text \<open>A request that opens \<^verbatim>\<open>/bin/ls\<close>, and the state of the run after it.\<close>

definition open_request :: RJson where
  "open_request =
     R_JSON_OBJECT
       [(''jsonrpc'', R_JSON_STRING ''2.0''), (''id'', R_JSON_STRING ''a''),
        (''method'', R_JSON_STRING ''tools/call''),
        (''params'',
         R_JSON_OBJECT
           [(''name'', R_JSON_STRING ''openFile''),
            (''arguments'', R_JSON_OBJECT [(''filePath'', R_JSON_STRING ''/bin/ls'')])])]"

definition stub_opened :: Globals where
  "stub_opened =
     \<lparr> r_core = Some [R_config_set_i ''scr.color'' 0, R_core_cmd0 ''e bin.relocs.apply=true'',
                       R_core_cmd0 ''e bin.cache=true'', R_core_cmd_str ''o /bin/ls'',
                       R_core_cmd0 ''ob''],
       file_opened = True, current_file = ''/bin/ls'',
       server_state = initial_server_state,
       stdout =
         [R_JSON_OBJECT
            [(''jsonrpc'', R_JSON_STRING ''2.0''), (''id'', R_JSON_STRING ''a''),
             (''result'',
              R_JSON_OBJECT
                [(''content'',
                  R_JSON_ARRAY
                    [R_JSON_OBJECT
                       [(''type'', R_JSON_STRING ''text''),
                        (''text'', R_JSON_STRING ''File opened successfully.'')]])])]] \<rparr>"

text \<open>The globals with the \<open>initialized\<close> flag set to \<open>b\<close>.\<close>

definition with_initialized :: "bool \<Rightarrow> Globals \<Rightarrow> Globals" where
  "with_initialized b s = s\<lparr> server_state := (server_state s)\<lparr> initialized := b \<rparr> \<rparr>"

text \<open>
  What \<^verbatim>\<open>closeFile\<close> does to the globals when a file is open: the command \<^verbatim>\<open>o-*\<close>, then
  \<open>file_opened\<close> and \<open>current_file\<close> are cleared.
\<close>

definition close_current_file :: "Globals \<Rightarrow> Globals" where
  "close_current_file s = (r_core_cmd0 ''o-*'' s)\<lparr> file_opened := False, current_file := [] \<rparr>"

section \<open>What the backend calls and the handlers leave unchanged\<close>

lemma r_core_cmd0_frame:
  "server_state (r_core_cmd0 cmd s) = server_state s"
  "file_opened (r_core_cmd0 cmd s) = file_opened s"
  "current_file (r_core_cmd0 cmd s) = current_file s"
  "stdout (r_core_cmd0 cmd s) = stdout s"
  "(r_core (r_core_cmd0 cmd s) = None) = (r_core s = None)"
  by (simp_all add: r_core_cmd0_def)

lemma r_core_bin_load_frame:
  "server_state (r_core_bin_load f s) = server_state s"
  "stdout (r_core_bin_load f s) = stdout s"
  "(r_core (r_core_bin_load f s) = None) = (r_core s = None)"
  by (simp_all add: r_core_bin_load_def)

lemma r_core_cmd_str_frame:
  "server_state (snd (r_core_cmd_str E cmd s)) = server_state s"
  "stdout (snd (r_core_cmd_str E cmd s)) = stdout s"
  "file_opened (snd (r_core_cmd_str E cmd s)) = file_opened s"
  "(r_core (snd (r_core_cmd_str E cmd s)) = None) = (r_core s = None)"
  by (simp_all add: r_core_cmd_str_def split: option.splits)

lemma r_core_file_open_frame:
  "server_state (snd (r_core_file_open E f s)) = server_state s"
  "stdout (snd (r_core_file_open E f s)) = stdout s"
  "(r_core (snd (r_core_file_open E f s)) = None) = (r_core s = None)"
  by (simp_all add: r_core_file_open_def split: option.splits)

lemma r2_open_file_Some:
  assumes "r_core s = Some h"
  shows "r2_open_file E f s =
    (let h1 = (if file_opened s then h @ [R_core_cmd0 ''o-*''] else h) @
                [R_core_cmd0 ''e bin.relocs.apply=true'', R_core_cmd0 ''e bin.cache=true''];
         cmd = take 1023 (''o '' @ f);
         h2 = h1 @ [R_core_cmd_str cmd];
         s' = (if file_opened s then s\<lparr> file_opened := False, current_file := [] \<rparr> else s)
     in if (case r_core_cmd_str_out E h1 cmd of None \<Rightarrow> False | Some r \<Rightarrow> 0 < length r)
        then (True, s\<lparr> r_core := Some (h2 @ [R_core_cmd0 ''ob'']),
                        current_file := take 1023 f, file_opened := True \<rparr>)
        else if r_core_file_open_ok E h2 f
        then (True, s\<lparr> r_core := Some (h2 @ [R_core_file_open f, R_core_bin_load f,
                                                 R_core_cmd0 ''ob'']),
                        current_file := take 1023 f, file_opened := True \<rparr>)
        else (False, s'\<lparr> r_core := Some (h2 @ [R_core_file_open f]) \<rparr>))"
proof (cases "file_opened s")
  case True
  with assms show ?thesis
    by (simp add: r2_open_file_def r2_open_file_finish_def Let_def r_core_cmd0_def
          r_core_cmd_str_def r_core_file_open_def r_core_bin_load_def)
next
  case False
  with assms show ?thesis
    by (simp add: r2_open_file_def r2_open_file_finish_def Let_def r_core_cmd0_def
          r_core_cmd_str_def r_core_file_open_def r_core_bin_load_def)
qed


lemma r2_open_file_None:
  assumes "r_core s = None"
  shows "r2_open_file E f s =
    (if r_core_new_ok E
     then r2_open_file E f (s\<lparr> r_core := Some [R_config_set_i ''scr.color'' 0] \<rparr>)
     else (False, s\<lparr> r_core := None \<rparr>))"
  using assms by (simp add: r2_open_file_def init_r2_def)

lemma r2_open_file_frame_Some:
  assumes "r_core s = Some h"
  shows "server_state (snd (r2_open_file E f s)) = server_state s"
    and "stdout (snd (r2_open_file E f s)) = stdout s"
    and "r_core (snd (r2_open_file E f s)) \<noteq> None"
  by (simp_all add: r2_open_file_Some [OF assms] Let_def)

lemma r2_open_file_frame:
  "server_state (snd (r2_open_file E f s)) = server_state s"
  "stdout (snd (r2_open_file E f s)) = stdout s"
proof -
  show "server_state (snd (r2_open_file E f s)) = server_state s"
  proof (cases "r_core s")
    case None
    then show ?thesis
      using r2_open_file_frame_Some(1) [of "s\<lparr> r_core := Some [R_config_set_i ''scr.color'' 0] \<rparr>"]
      by (simp add: r2_open_file_None)
  next
    case (Some h)
    then show ?thesis by (rule r2_open_file_frame_Some)
  qed
  show "stdout (snd (r2_open_file E f s)) = stdout s"
  proof (cases "r_core s")
    case None
    then show ?thesis
      using r2_open_file_frame_Some(2) [of "s\<lparr> r_core := Some [R_config_set_i ''scr.color'' 0] \<rparr>"]
      by (simp add: r2_open_file_None)
  next
    case (Some h)
    then show ?thesis by (rule r2_open_file_frame_Some)
  qed
qed

lemma r2_open_file_core:
  assumes "r_core s \<noteq> None"
  shows "r_core (snd (r2_open_file E f s)) \<noteq> None"
proof -
  from assms obtain h where "r_core s = Some h" by auto
  then show ?thesis by (rule r2_open_file_frame_Some)
qed

lemma r2_cmd_frame:
  "server_state (snd (r2_cmd E cmd s)) = server_state s"
  "stdout (snd (r2_cmd E cmd s)) = stdout s"
  "file_opened (snd (r2_cmd E cmd s)) = file_opened s"
  "(r_core (snd (r2_cmd E cmd s)) = None) = (r_core s = None)"
  by (simp_all add: r2_cmd_def r_core_cmd_str_frame)

lemma r2_analyze_frame:
  "server_state (snd (r2_analyze level s)) = server_state s"
  "stdout (snd (r2_analyze level s)) = stdout s"
  "file_opened (snd (r2_analyze level s)) = file_opened s"
  "(r_core (snd (r2_analyze level s)) = None) = (r_core s = None)"
  by (simp_all add: r2_analyze_def r_core_cmd0_frame)

section \<open>The branches of \<^verbatim>\<open>handle_call_tool\<close>\<close>

lemma handle_call_tool_no_name:
  assumes "r_json_get_str params ''name'' = None"
  shows "handle_call_tool E params s =
    (create_error_response (- 32602) ''Missing required parameter: name'' None None, s)"
  using assms by (simp add: handle_call_tool_def)

lemma handle_call_tool_openFile:
  assumes "r_json_get_str params ''name'' = Some ''openFile''"
  shows "handle_call_tool E params s =
    (case r_json_get_str (r_json_get params ''arguments'') ''filePath'' of
       None \<Rightarrow>
         (create_error_response (- 32602) ''Missing required parameter: filePath'' None None, s)
     | Some filepath \<Rightarrow>
         (create_tool_text_response
            (Some (if fst (r2_open_file E filepath s) then ''File opened successfully.''
                   else ''Failed to open file.'')),
          snd (r2_open_file E filepath s)))"
  using assms by (simp add: handle_call_tool_def case_prod_beta split: option.splits)

lemma handle_call_tool_closeFile:
  assumes "r_json_get_str params ''name'' = Some ''closeFile''"
  shows "handle_call_tool E params s =
    (if \<not> file_opened s then (create_tool_text_response (Some ''No file was open.''), s)
     else (create_tool_text_response (Some ''File closed successfully.''),
           if r_core s \<noteq> None
           then (r_core_cmd0 ''o-*'' s)\<lparr> file_opened := False, current_file := [] \<rparr>
           else s))"
  using assms by (simp add: handle_call_tool_def del: not_None_eq)

lemma handle_call_tool_no_file:
  assumes "r_json_get_str params ''name'' = Some tool_name"
      and "tool_name = ''runCommand'' \<or> tool_name = ''analyze'' \<or> tool_name = ''disassemble''"
      and "\<not> file_opened s"
  shows "handle_call_tool E params s =
    (create_tool_error_response ''No file is currently open. Please open a file first.'', s)"
  using assms by (auto simp add: handle_call_tool_def)

lemma handle_call_tool_runCommand:
  assumes "r_json_get_str params ''name'' = Some ''runCommand''" and "file_opened s"
  shows "handle_call_tool E params s =
    (case r_json_get_str (r_json_get params ''arguments'') ''command'' of
       None \<Rightarrow>
         (create_error_response (- 32602) ''Missing required parameter: command'' None None, s)
     | Some command \<Rightarrow>
         (create_tool_text_response (fst (r2_cmd E command s)), snd (r2_cmd E command s)))"
  using assms by (simp add: handle_call_tool_def case_prod_beta split: option.splits)

lemma handle_call_tool_analyze:
  assumes "r_json_get_str params ''name'' = Some ''analyze''" and "file_opened s"
  shows "handle_call_tool E params s =
    (let level = (case r_json_get_str (r_json_get params ''arguments'') ''level'' of
                    None \<Rightarrow> ''aaa'' | Some l \<Rightarrow> l);
         s1 = snd (r2_analyze level s)
     in (create_tool_text_response
           (Some (format_string
              (''Analysis completed with level '' @ level @ [CHR ''.'', CHR 0x0A, CHR 0x0A] @
               printf_s (fst (r2_cmd E ''afl'' s1))))),
         snd (r2_cmd E ''afl'' s1)))"
  using assms by (simp add: handle_call_tool_def case_prod_beta Let_def)

lemma handle_call_tool_disassemble:
  assumes "r_json_get_str params ''name'' = Some ''disassemble''" and "file_opened s"
  shows "handle_call_tool E params s =
    (case r_json_get_str (r_json_get params ''arguments'') ''address'' of
       None \<Rightarrow>
         (create_error_response (- 32602) ''Missing required parameter: address'' None None, s)
     | Some address \<Rightarrow>
         (let num_instructions =
                (case r_json_get (r_json_get params ''arguments'') ''numInstructions'' of
                   Some (R_JSON_INTEGER u_value) \<Rightarrow> int32 u_value
                 | _ \<Rightarrow> 10);
              cmd = take 127 (''pd '' @ printf_d num_instructions @ '' @ '' @ address)
          in (create_tool_text_response (fst (r2_cmd E cmd s)), snd (r2_cmd E cmd s))))"
  using assms by (simp add: handle_call_tool_def case_prod_beta Let_def split: option.splits)

lemma handle_call_tool_unknown:
  assumes "r_json_get_str params ''name'' = Some tool_name"
      and "tool_name \<noteq> ''openFile''" and "tool_name \<noteq> ''closeFile''"
      and "tool_name \<noteq> ''runCommand''" and "tool_name \<noteq> ''analyze''"
      and "tool_name \<noteq> ''disassemble''"
  shows "handle_call_tool E params s =
    (create_error_response (- 32602) (format_string (''Unknown tool: '' @ tool_name)) None None, s)"
  using assms by (simp add: handle_call_tool_def)

lemma handle_call_tool_cases:
  obtains (no_name) "r_json_get_str params ''name'' = None"
  | (openFile) "r_json_get_str params ''name'' = Some ''openFile''"
  | (closeFile) "r_json_get_str params ''name'' = Some ''closeFile''"
  | (no_file) tool_name where "r_json_get_str params ''name'' = Some tool_name"
      "tool_name = ''runCommand'' \<or> tool_name = ''analyze'' \<or> tool_name = ''disassemble''"
      "\<not> file_opened s"
  | (runCommand) "r_json_get_str params ''name'' = Some ''runCommand''" "file_opened s"
  | (analyze) "r_json_get_str params ''name'' = Some ''analyze''" "file_opened s"
  | (disassemble) "r_json_get_str params ''name'' = Some ''disassemble''" "file_opened s"
  | (unknown) tool_name where "r_json_get_str params ''name'' = Some tool_name"
      "tool_name \<noteq> ''openFile''" "tool_name \<noteq> ''closeFile''"
      "tool_name \<noteq> ''runCommand''" "tool_name \<noteq> ''analyze''"
      "tool_name \<noteq> ''disassemble''"
proof (cases "r_json_get_str params ''name''")
  case None
  then show thesis by (rule no_name)
next
  case (Some t)
  show thesis
  proof (cases "t = ''openFile''")
    case True
    with Some show thesis by (simp add: openFile)
  next
    case not_open: False
    show thesis
    proof (cases "t = ''closeFile''")
      case True
      with Some show thesis by (simp add: closeFile)
    next
      case not_close: False
      show thesis
      proof (cases "t = ''runCommand''")
        case True
        with Some show thesis
          by (cases "file_opened s") (simp_all add: runCommand no_file)
      next
        case not_run: False
        show thesis
        proof (cases "t = ''analyze''")
          case True
          with Some show thesis
            by (cases "file_opened s") (simp_all add: analyze no_file)
        next
          case not_analyze: False
          show thesis
          proof (cases "t = ''disassemble''")
            case True
            with Some show thesis
              by (cases "file_opened s") (simp_all add: disassemble no_file)
          next
            case False
            with Some not_open not_close not_run not_analyze show thesis
              by (rule unknown)
          qed
        qed
      qed
    qed
  qed
qed

lemma handle_call_tool_frame:
  "server_state (snd (handle_call_tool E params s)) = server_state s \<and>
   stdout (snd (handle_call_tool E params s)) = stdout s \<and>
   (r_core s \<noteq> None \<longrightarrow> r_core (snd (handle_call_tool E params s)) \<noteq> None)"
proof (cases rule: handle_call_tool_cases [where params = params and s = s])
  case no_name
  then show ?thesis by (simp add: handle_call_tool_no_name)
next
  case openFile
  then show ?thesis
    by (simp add: handle_call_tool_openFile r2_open_file_frame r2_open_file_core
          del: not_None_eq split: option.splits)
next
  case closeFile
  then show ?thesis
    by (simp add: handle_call_tool_closeFile r_core_cmd0_frame del: not_None_eq)
next
  case (no_file tool_name)
  then show ?thesis by (simp add: handle_call_tool_no_file)
next
  case runCommand
  then show ?thesis
    by (simp add: handle_call_tool_runCommand r2_cmd_frame del: not_None_eq split: option.splits)
next
  case analyze
  then show ?thesis
    by (simp add: handle_call_tool_analyze r2_cmd_frame r2_analyze_frame Let_def
          del: not_None_eq)
next
  case disassemble
  then show ?thesis
    by (simp add: handle_call_tool_disassemble r2_cmd_frame Let_def del: not_None_eq
          split: option.splits)
next
  case (unknown tool_name)
  then show ?thesis by (simp add: handle_call_tool_unknown)
qed


section \<open>The dispatcher and the states of a run\<close>


lemma handle_initialize_frame:
  assumes "handle_initialize params s = Inr (result, s')"
  shows "capabilities (server_state s') = capabilities (server_state s)"
    and "r_core s' = r_core s" and "stdout s' = stdout s"
  using assms by (auto simp add: handle_initialize_def Let_def split: if_splits)

lemma handle_mcp_request_fault:
  assumes "assert_capability_for_method method s = Inl f"
  shows "handle_mcp_request E method params rid s = Inl f"
  using assms by (simp add: handle_mcp_request_def)

lemma handle_mcp_request_refused:
  assumes "assert_capability_for_method method s = Inr (Some e)"
  shows "handle_mcp_request E method params rid s =
    Inr (create_error_response (- 32601) e rid None, s)"
  using assms by (simp add: handle_mcp_request_def)

lemma handle_mcp_request_unsupported:
  assumes "assert_capability_for_method method s = Inr None"
      and "assert_request_handler_capability method s = Some e"
  shows "handle_mcp_request E method params rid s =
    Inr (create_error_response (- 32601) e rid None, s)"
  using assms by (simp add: handle_mcp_request_def)

lemma handle_mcp_request_passed:
  assumes "assert_capability_for_method method s = Inr None"
      and "assert_request_handler_capability method s = None"
  shows "handle_mcp_request E method params rid s =
    (if method = ''initialize'' then
       (case handle_initialize params s of
          Inl f \<Rightarrow> Inl f
        | Inr p \<Rightarrow> Inr (create_success_response (Some (fst p)) rid, snd p))
     else if method = ''ping'' then
       Inr (create_success_response (Some (R_JSON_OBJECT [])) rid, s)
     else if method = ''resources/templates/list'' then
       Inr (create_error_response (- 32601)
              ''Method not implemented: templates are not supported'' rid None, s)
     else if method = ''resources/list'' \<or> method = ''resources/read'' \<or>
             method = ''resource/read'' then
       Inr (create_error_response (- 32601)
              ''Method not implemented: resources are not supported'' rid None, s)
     else if method = ''resources/subscribe'' \<or> method = ''resource/subscribe'' then
       Inr (create_error_response (- 32601)
              ''Method not implemented: subscriptions are not supported'' rid None, s)
     else if method = ''tools/list'' \<or> method = ''tool/list'' then
       Inr (create_success_response (Some (handle_list_tools E params)) rid, s)
     else if method = ''tools/call'' \<or> method = ''tool/call'' then
       Inr (create_success_response (Some (fst (handle_call_tool E params s))) rid,
            snd (handle_call_tool E params s))
     else Inr (create_error_response (- 32601) ''Unknown method'' rid None, s))"
  using assms by (simp add: handle_mcp_request_def case_prod_beta split: sum.split)

lemma assert_capability_for_method_cases:
  obtains (fault) f where "assert_capability_for_method method s = Inl f"
  | (refused) e where "assert_capability_for_method method s = Inr (Some e)"
  | (passed) "assert_capability_for_method method s = Inr None"
proof (cases "assert_capability_for_method method s")
  case (Inl f)
  then show thesis by (rule fault)
next
  case (Inr r)
  then show thesis by (cases r) (simp_all add: refused passed)
qed

lemma handle_mcp_request_frame:
  assumes "handle_mcp_request E method params rid s = Inr (response, s')"
  shows "capabilities (server_state s') = capabilities (server_state s) \<and>
         stdout s' = stdout s \<and> (r_core s \<noteq> None \<longrightarrow> r_core s' \<noteq> None)"
proof (cases rule: assert_capability_for_method_cases [of "method" s])
  case (fault f)
  with assms show ?thesis by (simp add: handle_mcp_request_fault)
next
  case (refused e)
  with assms show ?thesis by (simp add: handle_mcp_request_refused)
next
  case passed
  show ?thesis
  proof (cases "assert_request_handler_capability method s")
    case (Some e)
    with passed assms show ?thesis by (simp add: handle_mcp_request_unsupported)
  next
    case None
    show ?thesis
    proof (cases "method = ''initialize''")
      case True
      with assms obtain result where "handle_initialize params s = Inr (result, s')"
        unfolding handle_mcp_request_passed [OF passed None]
        by (cases "handle_initialize params s") auto
      then show ?thesis
        using handle_initialize_frame [of params s result s'] by simp
    next
      case False
      have "map_sum id snd (handle_mcp_request E method params rid s) =
          Inr (if method = ''tools/call'' \<or> method = ''tool/call''
               then snd (handle_call_tool E params s) else s)"
        using False by (simp add: handle_mcp_request_passed [OF passed None])
      with assms
      have "s' = (if method = ''tools/call'' \<or> method = ''tool/call''
                  then snd (handle_call_tool E params s) else s)"
        by simp
      then show ?thesis
        by (simp add: handle_call_tool_frame del: not_None_eq)
    qed
  qed
qed

lemma r_json_free_request_fields:
  "r_core (r_json_free_request s) = r_core s"
  "file_opened (r_json_free_request s) = file_opened s"
  "current_file (r_json_free_request s) = current_file s"
  "stdout (r_json_free_request s) = stdout s"
  "capabilities (server_state (r_json_free_request s)) = capabilities (server_state s)"
  by (simp_all add: r_json_free_request_def)

lemma r_json_free_request_idem:
  "r_json_free_request (r_json_free_request s) = r_json_free_request s"
  by (simp add: r_json_free_request_def dangle_def split: RJsonPtr.split)

lemma process_mcp_message_cases:
  assumes "process_mcp_message E request s = Inr s'"
  obtains (dropped) "s' = s" "request = None"
  | (freed) "s' = r_json_free_request s"
  | (answered) name params rid response s1 where
      "handle_mcp_request E name params rid s = Inr (response, s1)"
      "s' = r_json_free_request (s1\<lparr> stdout := stdout s1 @ [response] \<rparr>)"
  using assms
  by (auto simp add: process_mcp_message_def Let_def
        split: option.splits sum.splits prod.splits)

lemma reachable_invariant:
  assumes "reachable E s"
  shows "r_core s \<noteq> None \<and> capabilities (server_state s) = \<lparr> logging = True, tools = True \<rparr> \<and>
         r_json_free_request s = s"
  using assms
proof (induction rule: reachable.induct)
  case started
  then show ?case
    by (simp add: init_r2_def initial_globals_def initial_server_state_def
          r_json_free_request_def dangle_def)
next
  case (message s request s')
  from message.hyps(2) show ?case
  proof (cases rule: process_mcp_message_cases)
    case dropped
    with message.IH show ?thesis by simp
  next
    case freed
    with message.IH show ?thesis by simp
  next
    case (answered name params rid response s1)
    from handle_mcp_request_frame [OF answered(1)] message.IH answered(2) show ?thesis
      by (simp add: r_json_free_request_fields r_json_free_request_idem del: not_None_eq)
  qed
qed

lemma reachable_tools_capability:
  assumes "reachable E s"
  shows "check_server_capability ''tools'' s"
  using reachable_invariant [OF assms] by (simp add: check_server_capability_def)

lemma tools_methods_pass:
  assumes "check_server_capability ''tools'' s"
      and "method = ''tools/list'' \<or> method = ''tool/list'' \<or>
           method = ''tools/call'' \<or> method = ''tool/call''"
  shows "assert_capability_for_method method s = Inr None \<and>
         assert_request_handler_capability method s = None"
  using assms(2)
  apply (elim disjE)
     apply (simp_all add: assert_capability_for_method_def
        assert_request_handler_capability_def assms(1))
  done

lemma handle_mcp_request_tools_call:
  assumes "check_server_capability ''tools'' s"
      and "method = ''tools/call'' \<or> method = ''tool/call''"
  shows "handle_mcp_request E method params rid s =
    Inr (create_success_response (Some (fst (handle_call_tool E params s))) rid,
         snd (handle_call_tool E params s))"
proof -
  from assms(2)
  have "method = ''tools/list'' \<or> method = ''tool/list'' \<or>
        method = ''tools/call'' \<or> method = ''tool/call''"
    by (elim disjE) simp_all
  with assms(1) have pass: "assert_capability_for_method method s = Inr None"
    "assert_request_handler_capability method s = None"
    by (simp_all add: tools_methods_pass)
  show ?thesis
    unfolding handle_mcp_request_passed [OF pass] using assms(2) by (elim disjE) simp_all
qed

lemma handle_mcp_request_tools_list:
  assumes "check_server_capability ''tools'' s"
      and "method = ''tools/list'' \<or> method = ''tool/list''"
  shows "handle_mcp_request E method params rid s =
    Inr (create_success_response (Some (handle_list_tools E params)) rid, s)"
proof -
  from assms(2)
  have "method = ''tools/list'' \<or> method = ''tool/list'' \<or>
        method = ''tools/call'' \<or> method = ''tool/call''"
    by (elim disjE) simp_all
  with assms(1) have pass: "assert_capability_for_method method s = Inr None"
    "assert_request_handler_capability method s = None"
    by (simp_all add: tools_methods_pass)
  show ?thesis
    unfolding handle_mcp_request_passed [OF pass] using assms(2) by (elim disjE) simp_all
qed

lemma handle_mcp_request_ping:
  "handle_mcp_request E ''ping'' params rid s =
     Inr (create_success_response (Some (R_JSON_OBJECT [])) rid, s)"
  by (simp add: handle_mcp_request_def assert_capability_for_method_def
        assert_request_handler_capability_def)

lemma reachable_stub_start: "reachable stub_env stub_start"
  unfolding stub_start_def by (rule reachable.started) (simp add: stub_env_def)

lemma stub_start_eq:
  "stub_start = \<lparr> r_core = Some [R_config_set_i ''scr.color'' 0], file_opened = False,
     current_file = [], server_state = initial_server_state, stdout = [] \<rparr>"
  by (simp add: stub_start_def init_r2_def stub_env_def initial_globals_def)

section \<open>The envelopes written out\<close>

lemma create_success_response_eq:
  "create_success_response (Some result) rid =
     R_JSON_OBJECT
       ([(''jsonrpc'', R_JSON_STRING ''2.0'')] @
        (case rid of None \<Rightarrow> [] | Some i \<Rightarrow> [(''id'', R_JSON_STRING i)]) @
        [(''result'', result)])"
  by (simp add: create_success_response_def pj_ks_def split: option.split)

lemma create_error_response_eq:
  "create_error_response code message rid None =
     R_JSON_OBJECT
       ([(''jsonrpc'', R_JSON_STRING ''2.0'')] @
        (case rid of None \<Rightarrow> [] | Some i \<Rightarrow> [(''id'', R_JSON_STRING i)]) @
        [(''error'',
          R_JSON_OBJECT [(''code'', R_JSON_INTEGER code), (''message'', R_JSON_STRING message)])])"
  by (simp add: create_error_response_def pj_ks_def split: option.split)

lemma create_tool_text_response_eq:
  "create_tool_text_response text_value =
     R_JSON_OBJECT
       [(''content'',
         R_JSON_ARRAY
           [R_JSON_OBJECT
              ([(''type'', R_JSON_STRING ''text'')] @
               (case text_value of None \<Rightarrow> [] | Some t \<Rightarrow> [(''text'', R_JSON_STRING t)]))])]"
  by (simp add: create_tool_text_response_def pj_ks_def split: option.split)

lemma create_tool_error_response_eq:
  "create_tool_error_response error_message =
     R_JSON_OBJECT
       [(''content'',
         R_JSON_ARRAY
           [R_JSON_OBJECT
              [(''type'', R_JSON_STRING ''text''), (''text'', R_JSON_STRING error_message)]]),
        (''isError'', R_JSON_BOOLEAN True)]"
  by (simp add: create_tool_error_response_def pj_ks_def)


section \<open>Numbers, cursors and the tool list\<close>

lemma nat_dec_small:
  assumes "n < 10"
  shows "nat_dec n = [digit_char n]"
  using assms by (simp add: nat_dec.simps)

lemma int32_id:
  assumes "- 2147483648 \<le> x" and "x < 2147483648"
  shows "int32 x = x"
  using assms by (simp add: int32_def)

lemma unparsable_strtol:
  assumes "unparsable cursor"
  shows "strtol cursor = 0"
proof (cases "dropWhile isspace cursor")
  case Nil
  show ?thesis
    unfolding strtol_def Let_def Nil by simp
next
  case (Cons c cs)
  show ?thesis
  proof (cases "c = CHR ''-'' \<or> c = CHR ''+''")
    case True
    with assms have "strtol_digits 0 cs = 0"
      unfolding unparsable_def Cons by (cases cs) simp_all
    with True show ?thesis
      unfolding strtol_def Let_def Cons by auto
  next
    case False
    with assms have "strtol_digits 0 (c # cs) = 0"
      unfolding unparsable_def Cons by simp
    with False show ?thesis
      unfolding strtol_def Let_def Cons by simp
  qed
qed

lemma unparsable_atoi:
  assumes "unparsable cursor"
  shows "atoi cursor = 0"
  by (simp add: atoi_def unparsable_strtol [OF assms] int32_def)

lemma handle_list_tools_first_page:
  assumes "open_memstream_ok E"
      and "r_json_get_str params ''cursor'' = None \<or>
           (\<exists>c. r_json_get_str params ''cursor'' = Some c \<and> atoi c \<le> 0)"
  shows "handle_list_tools E params =
    R_JSON_OBJECT [(''tools'', R_JSON_ARRAY (map tool_entry tools_table))]"
proof -
  have start: "(case r_json_get_str params ''cursor'' of None \<Rightarrow> 0
                | Some c \<Rightarrow> (if atoi c < 0 then 0 else atoi c)) = 0"
    using assms(2) by (cases "r_json_get_str params ''cursor''") auto
  have "[0..4] = [0, 1, 2, 3, 4 :: int]"
    by (simp add: upto.simps)
  then have page:
    "map (\<lambda>i. tool_entry (tools_table ! nat i)) [0..4] = map tool_entry tools_table"
    by (simp add: tools_table_def)
  have len: "int (length tools_table) = 5"
    by (simp add: tools_table_def)
  show ?thesis
    unfolding handle_list_tools_def Let_def start len
    using assms(1) page by (simp add: int32_def)
qed

lemma handle_list_tools_past_end:
  assumes "open_memstream_ok E"
      and "r_json_get_str params ''cursor'' = Some c"
      and "5 \<le> atoi c" and "atoi c \<le> 2147483637"
  shows "handle_list_tools E params = R_JSON_OBJECT [(''tools'', R_JSON_ARRAY [])]"
proof -
  have len: "int (length tools_table) = 5"
    by (simp add: tools_table_def)
  have sum: "int32 (atoi c + 10) = atoi c + 10"
    using assms(3,4) by (simp add: int32_id)
  show ?thesis
    unfolding handle_list_tools_def Let_def len
    using assms sum by simp
qed

lemma tools_table_names:
  "map fst tools_table = [''openFile'', ''closeFile'', ''runCommand'', ''analyze'', ''disassemble'']"
  by (simp add: tools_table_def)

lemma tools_page_eq:
  "map tool_entry tools_table =
     [R_JSON_OBJECT
        [(''name'', R_JSON_STRING ''openFile''),
         (''description'', R_JSON_STRING ''Open a file for analysis''),
         (''inputSchema'',
          PJ_RAW ''{\"type\":\"object\",\"properties\":{\"filePath\":{\"type\":\"string\",\"description\":\"Path to the file to open\"}},\"required\":[\"filePath\"]}'')],
      R_JSON_OBJECT
        [(''name'', R_JSON_STRING ''closeFile''),
         (''description'', R_JSON_STRING ''Close the currently open file''),
         (''inputSchema'', PJ_RAW ''{\"type\":\"object\",\"properties\":{}}'')],
      R_JSON_OBJECT
        [(''name'', R_JSON_STRING ''runCommand''),
         (''description'', R_JSON_STRING ''Run a radare2 command and get the output''),
         (''inputSchema'',
          PJ_RAW ''{\"type\":\"object\",\"properties\":{\"command\":{\"type\":\"string\",\"description\":\"Command to execute\"}},\"required\":[\"command\"]}'')],
      R_JSON_OBJECT
        [(''name'', R_JSON_STRING ''analyze''),
         (''description'', R_JSON_STRING ''Run analysis on the current file''),
         (''inputSchema'',
          PJ_RAW ''{\"type\":\"object\",\"properties\":{\"level\":{\"type\":\"string\",\"description\":\"Analysis level (a, aa, aaa, aaaa)\"}},\"required\":[]}'')],
      R_JSON_OBJECT
        [(''name'', R_JSON_STRING ''disassemble''),
         (''description'', R_JSON_STRING ''Disassemble instructions at a given address''),
         (''inputSchema'',
          PJ_RAW ''{\"type\":\"object\",\"properties\":{\"address\":{\"type\":\"string\",\"description\":\"Address to start disassembly\"},\"numInstructions\":{\"type\":\"integer\",\"description\":\"Number of instructions to disassemble\"}},\"required\":[\"address\"]}'')]]"
  by (simp add: tool_entry_def tools_table_def)

lemma atoi_minus_3: "atoi ''-3'' = - 3"
  by (simp add: atoi_def strtol_def isspace_def isdigit_def digit_val_def int32_def)

lemma atoi_7: "atoi ''7'' = 7"
  by (simp add: atoi_def strtol_def isspace_def isdigit_def digit_val_def int32_def)

lemma unparsable_abc: "unparsable ''abc''"
  by (simp add: unparsable_def isspace_def isdigit_def)


section \<open>Requests without a usable id\<close>








section \<open>Opening a file\<close>

lemma printf_d_10: "printf_d 10 = ''10''"
  by (simp add: printf_d_def nat_dec.simps [of 10] nat_dec_small digit_char_def)

lemma r2_cmd_Some:
  assumes "r_core s = Some h" and "file_opened s"
  shows "r2_cmd E cmd s =
    (r_core_cmd_str_out E h cmd, s\<lparr> r_core := Some (h @ [R_core_cmd_str cmd]) \<rparr>)"
  using assms by (simp add: r2_cmd_def r_core_cmd_str_def)

lemma process_open_request:
  "process_mcp_message stub_env (Some open_request) stub_start = Inr stub_opened"
proof -
  have core: "r_core stub_start = Some [R_config_set_i ''scr.color'' 0]"
    by (simp add: stub_start_eq)
  have opened: "r2_open_file stub_env ''/bin/ls'' stub_start =
    (True, stub_start\<lparr> r_core := Some [R_config_set_i ''scr.color'' 0,
                       R_core_cmd0 ''e bin.relocs.apply=true'',
                       R_core_cmd0 ''e bin.cache=true'', R_core_cmd_str ''o /bin/ls'',
                       R_core_cmd0 ''ob''],
                       current_file := ''/bin/ls'', file_opened := True \<rparr>)"
    unfolding r2_open_file_Some [OF core]
    by (simp add: stub_env_def stub_start_eq)
  have tool: "handle_call_tool stub_env (r_json_get (Some open_request) ''params'') stub_start =
    (create_tool_text_response (Some ''File opened successfully.''),
     snd (r2_open_file stub_env ''/bin/ls'' stub_start))"
    by (simp add: handle_call_tool_openFile open_request_def r_json_get_str_def opened)
  have call: "handle_mcp_request stub_env ''tools/call''
      (r_json_get (Some open_request) ''params'') (Some ''a'') stub_start =
    Inr (create_success_response
           (Some (create_tool_text_response (Some ''File opened successfully.''))) (Some ''a''),
         snd (r2_open_file stub_env ''/bin/ls'' stub_start))"
    using handle_mcp_request_tools_call
      [OF reachable_tools_capability [OF reachable_stub_start], of "''tools/call''" stub_env
        "r_json_get (Some open_request) ''params''" "Some ''a''"]
    by (simp add: tool)
  have request: "r_json_get_str (Some open_request) ''method'' = Some ''tools/call''"
    "r_json_get (Some open_request) ''id'' = Some (R_JSON_STRING ''a'')"
    by (simp_all add: open_request_def r_json_get_str_def)
  show ?thesis
    unfolding process_mcp_message_def Let_def request
    by (simp add: call opened)
      (simp add: stub_start_eq stub_opened_def r_json_free_request_def dangle_def
         initial_server_state_def create_success_response_eq create_tool_text_response_eq)
qed

lemma reachable_stub_opened: "reachable stub_env stub_opened"
  using reachable_stub_start process_open_request by (rule reachable.message)

lemma stub_opened_fields:
  "file_opened stub_opened"
  "r_core stub_opened =
     Some [R_config_set_i ''scr.color'' 0, R_core_cmd0 ''e bin.relocs.apply=true'',
           R_core_cmd0 ''e bin.cache=true'', R_core_cmd_str ''o /bin/ls'', R_core_cmd0 ''ob'']"
  by (simp_all add: stub_opened_def)

lemma r2_open_file_closes_first:
  assumes "file_opened s" and "r_core s = Some h"
  shows "r2_open_file E filepath s = r2_open_file E filepath (close_current_file s)"
proof -
  have closed: "r_core (close_current_file s) = Some (h @ [R_core_cmd0 ''o-*''])"
    using assms(2) by (simp add: close_current_file_def r_core_cmd0_def)
  show ?thesis
    unfolding r2_open_file_Some [OF assms(2)] r2_open_file_Some [OF closed]
    using assms by (simp add: close_current_file_def r_core_cmd0_def Let_def)
qed

lemma r2_open_file_closed_result:
  assumes "file_opened s" and "r_core s = Some h"
  shows "fst (r2_open_file E filepath s) =
      ((case r_core_cmd_str_out E
              (h @ [R_core_cmd0 ''o-*'', R_core_cmd0 ''e bin.relocs.apply=true'',
                    R_core_cmd0 ''e bin.cache=true''])
              (take 1023 (''o '' @ filepath)) of
          None \<Rightarrow> False | Some r \<Rightarrow> 0 < length r) \<or>
       r_core_file_open_ok E
         (h @ [R_core_cmd0 ''o-*'', R_core_cmd0 ''e bin.relocs.apply=true'',
               R_core_cmd0 ''e bin.cache=true'', R_core_cmd_str (take 1023 (''o '' @ filepath))])
         filepath)"
    and "file_opened (snd (r2_open_file E filepath s)) = fst (r2_open_file E filepath s)"
    and "current_file (snd (r2_open_file E filepath s)) =
      (if fst (r2_open_file E filepath s) then take 1023 filepath else [])"
    and "\<exists>calls. r_core (snd (r2_open_file E filepath s)) =
      Some (h @ [R_core_cmd0 ''o-*'', R_core_cmd0 ''e bin.relocs.apply=true'',
                 R_core_cmd0 ''e bin.cache=true'',
                 R_core_cmd_str (take 1023 (''o '' @ filepath))] @ calls)"
  unfolding r2_open_file_Some [OF assms(2)]
  using assms(1) by (simp_all add: Let_def)


section \<open>The \<open>initialized\<close> flag\<close>

lemma with_initialized_fields:
  "r_core (with_initialized b s) = r_core s"
  "file_opened (with_initialized b s) = file_opened s"
  "current_file (with_initialized b s) = current_file s"
  "stdout (with_initialized b s) = stdout s"
  "client_capabilities (server_state (with_initialized b s)) =
     client_capabilities (server_state s)"
  "capabilities (server_state (with_initialized b s)) = capabilities (server_state s)"
  by (simp_all add: with_initialized_def)

lemma with_initialized_updates:
  "with_initialized b (s\<lparr> r_core := c \<rparr>) = (with_initialized b s)\<lparr> r_core := c \<rparr>"
  "with_initialized b (s\<lparr> file_opened := f \<rparr>) = (with_initialized b s)\<lparr> file_opened := f \<rparr>"
  "with_initialized b (s\<lparr> current_file := p \<rparr>) = (with_initialized b s)\<lparr> current_file := p \<rparr>"
  by (simp_all add: with_initialized_def)

lemma assert_with_initialized:
  "assert_capability_for_method method (with_initialized b s) =
     assert_capability_for_method method s"
  "assert_request_handler_capability method (with_initialized b s) =
     assert_request_handler_capability method s"
  by (simp_all add: assert_capability_for_method_def assert_request_handler_capability_def
        check_client_capability_def check_server_capability_def with_initialized_fields)

lemma handle_initialize_with_initialized:
  "handle_initialize params (with_initialized b s) = handle_initialize params s"
  by (simp add: handle_initialize_def with_initialized_def Let_def)

lemma r2_open_file_with_initialized_Some:
  assumes "r_core s = Some h"
  shows "r2_open_file E f (with_initialized b s) =
    (fst (r2_open_file E f s), with_initialized b (snd (r2_open_file E f s)))"
proof -
  have core: "r_core (with_initialized b s) = Some h"
    using assms by (simp add: with_initialized_fields)
  show ?thesis
    unfolding r2_open_file_Some [OF assms] r2_open_file_Some [OF core]
    by (simp add: Let_def with_initialized_fields with_initialized_updates)
qed

lemma r2_open_file_with_initialized:
  "r2_open_file E f (with_initialized b s) =
    (fst (r2_open_file E f s), with_initialized b (snd (r2_open_file E f s)))"
proof (cases "r_core s")
  case (Some h)
  then show ?thesis by (rule r2_open_file_with_initialized_Some)
next
  case None
  then have none: "r_core (with_initialized b s) = None"
    by (simp add: with_initialized_fields)
  have fresh: "r_core (s\<lparr> r_core := Some [R_config_set_i ''scr.color'' 0] \<rparr>) =
      Some [R_config_set_i ''scr.color'' 0]"
    by simp
  show ?thesis
    unfolding r2_open_file_None [OF None] r2_open_file_None [OF none]
    using r2_open_file_with_initialized_Some [OF fresh, of E f b]
    by (simp add: with_initialized_updates)
qed

lemma r2_cmd_with_initialized:
  "r2_cmd E cmd (with_initialized b s) =
    (fst (r2_cmd E cmd s), with_initialized b (snd (r2_cmd E cmd s)))"
  by (simp add: r2_cmd_def r_core_cmd_str_def with_initialized_fields with_initialized_updates
        split: option.split)

lemma r2_analyze_with_initialized:
  "r2_analyze level (with_initialized b s) =
    (fst (r2_analyze level s), with_initialized b (snd (r2_analyze level s)))"
  by (simp add: r2_analyze_def r_core_cmd0_def with_initialized_fields with_initialized_updates)

lemma handle_call_tool_with_initialized:
  "handle_call_tool E params (with_initialized b s) =
    (fst (handle_call_tool E params s), with_initialized b (snd (handle_call_tool E params s)))"
proof (cases rule: handle_call_tool_cases [where params = params and s = s])
  case no_name
  then show ?thesis by (simp add: handle_call_tool_no_name)
next
  case openFile
  then show ?thesis
    by (simp add: handle_call_tool_openFile r2_open_file_with_initialized split: option.split)
next
  case closeFile
  then show ?thesis
    by (simp add: handle_call_tool_closeFile r_core_cmd0_def with_initialized_fields
          with_initialized_updates del: not_None_eq)
next
  case (no_file tool_name)
  then show ?thesis
    by (simp add: handle_call_tool_no_file with_initialized_fields)
next
  case runCommand
  then show ?thesis
    by (simp add: handle_call_tool_runCommand with_initialized_fields r2_cmd_with_initialized
          split: option.split)
next
  case analyze
  then show ?thesis
    by (simp add: handle_call_tool_analyze with_initialized_fields r2_cmd_with_initialized
          r2_analyze_with_initialized Let_def)
next
  case disassemble
  then show ?thesis
    by (simp add: handle_call_tool_disassemble with_initialized_fields r2_cmd_with_initialized
          Let_def split: option.split)
next
  case (unknown tool_name)
  then show ?thesis by (simp add: handle_call_tool_unknown)
qed

lemma handle_mcp_request_with_initialized:
  "map_sum id fst (handle_mcp_request E method params rid (with_initialized b s)) =
     map_sum id fst (handle_mcp_request E method params rid s)"
proof (cases rule: assert_capability_for_method_cases [of "method" s])
  case (fault f)
  then show ?thesis
    by (simp add: handle_mcp_request_fault assert_with_initialized)
next
  case (refused e)
  then show ?thesis
    by (simp add: handle_mcp_request_refused assert_with_initialized)
next
  case passed
  show ?thesis
  proof (cases "assert_request_handler_capability method s")
    case (Some e)
    with passed show ?thesis
      by (simp add: handle_mcp_request_unsupported assert_with_initialized)
  next
    case None
    have passed': "assert_capability_for_method method (with_initialized b s) = Inr None"
      and None': "assert_request_handler_capability method (with_initialized b s) = None"
      using passed None by (simp_all add: assert_with_initialized)
    show ?thesis
      unfolding handle_mcp_request_passed [OF passed None]
        handle_mcp_request_passed [OF passed' None']
      by (simp add: handle_initialize_with_initialized handle_call_tool_with_initialized
            split: sum.split)
  qed
qed

section \<open>Framing lemmas\<close>

lemma buffer_write_fits:
  assumes "buffer_ok buf" and "bsize buf + length bytes \<le> capacity buf"
  shows "\<exists>buf'. buffer_write buf bytes = Some buf' \<and> in_use buf' = in_use buf @ bytes \<and>
           buffer_ok buf' \<and> capacity buf' = capacity buf"
  using assms by (simp add: buffer_write_def in_use_def buffer_ok_def)

lemma read_buffer_append_fits:
  assumes "realloc_ok (capacity buf * 2)" and "buffer_ok buf"
      and "bsize buf + length bytes \<le> 2 * capacity buf"
  shows "\<exists>buf'. read_buffer_append realloc_ok buf bytes = Some buf' \<and>
           in_use buf' = in_use buf @ bytes \<and> buffer_ok buf' \<and>
           capacity buf \<le> capacity buf'"
proof (cases "bsize buf + length bytes > capacity buf")
  case False
  then have "bsize buf + length bytes \<le> capacity buf" by simp
  from buffer_write_fits [OF assms(2) this] False show ?thesis
    by (auto simp add: read_buffer_append_def)
next
  case True
  let ?grown = "buf\<lparr> capacity := capacity buf * 2 \<rparr>"
  have ok: "buffer_ok ?grown"
    using assms(2) by (simp add: buffer_ok_def)
  have fits: "bsize ?grown + length bytes \<le> capacity ?grown"
    using assms(3) by simp
  from buffer_write_fits [OF ok fits] True assms(1) show ?thesis
    by (auto simp add: read_buffer_append_def Let_def in_use_def)
qed

lemma read_buffer_get_message_none:
  assumes "newline \<notin> set (in_use buf)"
  shows "read_buffer_get_message buf = None"
  using assms by (simp add: read_buffer_get_message_def memchr_def in_use_def)

lemma read_buffer_get_message_some:
  assumes "buffer_ok buf" and "newline \<in> set (in_use buf)"
  shows "\<exists>buf'. read_buffer_get_message buf =
           Some (takeWhile (\<lambda>x. x \<noteq> newline) (in_use buf), buf') \<and>
           in_use buf' = tl (dropWhile (\<lambda>x. x \<noteq> newline) (in_use buf)) \<and>
           buffer_ok buf' \<and> capacity buf' = capacity buf"
proof -
  define used where "used = in_use buf"
  define k where "k = length (takeWhile (\<lambda>x. x \<noteq> newline) used)"
  have used_len: "length used = bsize buf"
    using assms(1) by (simp add: used_def in_use_def buffer_ok_def)
  have found: "memchr (data buf) newline (bsize buf) = Some k"
    using assms(2) by (simp add: memchr_def k_def used_def in_use_def)
  have "length (takeWhile (\<lambda>x. x \<noteq> newline) used) +
        length (dropWhile (\<lambda>x. x \<noteq> newline) used) = length used"
    by (simp only: length_append [symmetric] takeWhile_dropWhile_id)
  moreover from assms(2) have "0 < length (dropWhile (\<lambda>x. x \<noteq> newline) used)"
    by (simp add: dropWhile_eq_Nil_conv used_def)
  ultimately have k_less: "k < bsize buf"
    unfolding k_def using used_len by linarith
  have msg: "take k (data buf) = takeWhile (\<lambda>x. x \<noteq> newline) used"
  proof -
    have "takeWhile (\<lambda>x. x \<noteq> newline) used = take k used"
      unfolding k_def by (rule takeWhile_eq_take)
    also have "\<dots> = take k (data buf)"
      using k_less by (simp add: used_def in_use_def min_def)
    finally show ?thesis by simp
  qed
  have rest: "tl (dropWhile (\<lambda>x. x \<noteq> newline) used) =
      take (bsize buf - (k + 1)) (drop (k + 1) (data buf))"
  proof -
    have "dropWhile (\<lambda>x. x \<noteq> newline) used = drop k used"
      unfolding k_def by (rule dropWhile_eq_drop)
    then have "tl (dropWhile (\<lambda>x. x \<noteq> newline) used) = drop (Suc k) used"
      by (simp add: drop_Suc tl_drop)
    also have "\<dots> = take (bsize buf - (k + 1)) (drop (k + 1) (data buf))"
      by (simp add: used_def in_use_def drop_take)
    finally show ?thesis .
  qed
  have enough: "bsize buf - (k + 1) \<le> length (drop (k + 1) (data buf))"
    using assms(1) by (auto simp add: buffer_ok_def)
  let ?remaining = "bsize buf - (k + 1)"
  let ?moved = "if 0 < ?remaining
                then take ?remaining (drop (k + 1) (data buf)) @ drop ?remaining (data buf)
                else data buf"
  let ?buf' = "buf\<lparr> data := ?moved, bsize := ?remaining \<rparr>"
  have got: "read_buffer_get_message buf = Some (take k (data buf), ?buf')"
    by (simp add: read_buffer_get_message_def found Let_def)
  have in_use': "in_use ?buf' = take ?remaining (drop (k + 1) (data buf))"
    using enough by (simp add: in_use_def)
  have ok': "buffer_ok ?buf'"
    using assms(1) k_less by (auto simp add: buffer_ok_def)
  show ?thesis
    using got in_use' ok' unfolding msg rest used_def [symmetric] by simp
qed

lemma messages_of_no_newline:
  assumes "newline \<notin> set xs"
  shows "messages_of xs = ([], xs)"
  using assms by (induction xs) auto

lemma messages_of_line:
  assumes "newline \<notin> set m"
  shows "messages_of (m @ newline # rest) =
    (m # fst (messages_of rest), snd (messages_of rest))"
  using assms by (induction m) (auto simp add: case_prod_beta)

lemma split_at_newline:
  assumes "newline \<in> set xs"
  shows "xs = takeWhile (\<lambda>x. x \<noteq> newline) xs @
              newline # tl (dropWhile (\<lambda>x. x \<noteq> newline) xs)"
proof -
  from assms have "dropWhile (\<lambda>x. x \<noteq> newline) xs \<noteq> []"
    by (simp add: dropWhile_eq_Nil_conv)
  then have "dropWhile (\<lambda>x. x \<noteq> newline) xs =
      hd (dropWhile (\<lambda>x. x \<noteq> newline) xs) # tl (dropWhile (\<lambda>x. x \<noteq> newline) xs)"
    by simp
  moreover from \<open>dropWhile (\<lambda>x. x \<noteq> newline) xs \<noteq> []\<close>
  have "hd (dropWhile (\<lambda>x. x \<noteq> newline) xs) = newline"
    using hd_dropWhile [of "\<lambda>x. x \<noteq> newline" xs] by simp
  ultimately have "dropWhile (\<lambda>x. x \<noteq> newline) xs =
      newline # tl (dropWhile (\<lambda>x. x \<noteq> newline) xs)"
    by simp
  then show ?thesis
    using takeWhile_dropWhile_id [of "\<lambda>x. x \<noteq> newline" xs] by simp
qed

lemma messages_of_rest_no_newline: "newline \<notin> set (snd (messages_of xs))"
  by (induction xs) (auto simp add: case_prod_beta split: list.split)

lemma messages_of_append:
  "messages_of (xs @ ys) =
     (fst (messages_of xs) @ fst (messages_of (snd (messages_of xs) @ ys)),
      snd (messages_of (snd (messages_of xs) @ ys)))"
proof (induction xs)
  case Nil
  then show ?case by simp
next
  case (Cons x xs)
  show ?case
  proof (cases "x = newline")
    case True
    then show ?thesis
      using Cons by (simp add: case_prod_beta)
  next
    case False
    show ?thesis
    proof (cases "fst (messages_of xs)")
      case Nil
      with False Cons show ?thesis
        by (simp add: case_prod_beta)
    next
      case (Cons m ms)
      with False Cons.IH show ?thesis
        by (simp add: case_prod_beta)
    qed
  qed
qed

lemma extract_messages_spec:
  assumes "buffer_ok buf"
  shows "\<exists>buf'. extract_messages buf = (fst (messages_of (in_use buf)), buf') \<and>
           in_use buf' = snd (messages_of (in_use buf)) \<and> buffer_ok buf' \<and>
           capacity buf' = capacity buf"
  using assms
proof (induction buf rule: extract_messages.induct)
  case (1 buf)
  show ?case
  proof (cases "newline \<in> set (in_use buf)")
    case False
    then show ?thesis
      using "1.prems"
      by (simp add: extract_messages.simps [of buf] read_buffer_get_message_none
            messages_of_no_newline)
  next
    case True
    from read_buffer_get_message_some [OF "1.prems" True]
    obtain buf1 where got: "read_buffer_get_message buf =
        Some (takeWhile (\<lambda>x. x \<noteq> newline) (in_use buf), buf1)"
      and rest: "in_use buf1 = tl (dropWhile (\<lambda>x. x \<noteq> newline) (in_use buf))"
      and ok1: "buffer_ok buf1" and cap1: "capacity buf1 = capacity buf"
      by blast
    from "1.IH" [OF got refl ok1]
    obtain buf2 where rec: "extract_messages buf1 = (fst (messages_of (in_use buf1)), buf2)"
      and rest2: "in_use buf2 = snd (messages_of (in_use buf1))"
      and ok2: "buffer_ok buf2" and cap2: "capacity buf2 = capacity buf1"
      by blast
    have "newline \<notin> set (takeWhile (\<lambda>x. x \<noteq> newline) (in_use buf))"
      by (auto dest: set_takeWhileD)
    then have "messages_of (takeWhile (\<lambda>x. x \<noteq> newline) (in_use buf) @
                 newline # in_use buf1) =
        (takeWhile (\<lambda>x. x \<noteq> newline) (in_use buf) # fst (messages_of (in_use buf1)),
         snd (messages_of (in_use buf1)))"
      by (rule messages_of_line)
    then have whole: "messages_of (in_use buf) =
        (takeWhile (\<lambda>x. x \<noteq> newline) (in_use buf) # fst (messages_of (in_use buf1)),
         snd (messages_of (in_use buf1)))"
      using split_at_newline [OF True] rest by simp
    show ?thesis
      using got rec rest2 ok2 cap2 cap1 whole
      by (simp add: extract_messages.simps [of buf])
  qed
qed

lemma direct_mode_reads_spec:
  assumes "\<forall>n. realloc_ok n" and "buffer_ok buf" and "newline \<notin> set (in_use buf)"
      and "\<forall>chunk \<in> set chunks. length chunk \<le> capacity buf"
  shows "\<exists>buf'. direct_mode_reads realloc_ok buf chunks =
             Some (fst (messages_of (in_use buf @ concat chunks)), buf') \<and>
           in_use buf' = snd (messages_of (in_use buf @ concat chunks)) \<and>
           buffer_ok buf' \<and> capacity buf \<le> capacity buf'"
  using assms(2-4)
proof (induction chunks arbitrary: buf)
  case Nil
  then show ?case
    by (simp add: messages_of_no_newline)
next
  case (Cons chunk chunks)
  have "bsize buf + length chunk \<le> 2 * capacity buf"
    using Cons.prems(1,3) by (simp add: buffer_ok_def)
  with read_buffer_append_fits [of realloc_ok buf chunk] assms(1) Cons.prems(1)
  obtain buf1 where app: "read_buffer_append realloc_ok buf chunk = Some buf1"
    and use1: "in_use buf1 = in_use buf @ chunk" and ok1: "buffer_ok buf1"
    and cap1: "capacity buf \<le> capacity buf1"
    by blast
  from extract_messages_spec [OF ok1]
  obtain buf2 where ext: "extract_messages buf1 = (fst (messages_of (in_use buf1)), buf2)"
    and use2: "in_use buf2 = snd (messages_of (in_use buf1))" and ok2: "buffer_ok buf2"
    and cap2: "capacity buf2 = capacity buf1"
    by blast
  have drained: "newline \<notin> set (in_use buf2)"
    unfolding use2 by (rule messages_of_rest_no_newline)
  have sizes: "\<forall>c \<in> set chunks. length c \<le> capacity buf2"
    using Cons.prems(3) cap1 cap2 by auto
  from Cons.IH [OF ok2 drained sizes]
  obtain buf3 where rec: "direct_mode_reads realloc_ok buf2 chunks =
      Some (fst (messages_of (in_use buf2 @ concat chunks)), buf3)"
    and use3: "in_use buf3 = snd (messages_of (in_use buf2 @ concat chunks))"
    and ok3: "buffer_ok buf3" and cap3: "capacity buf2 \<le> capacity buf3"
    by blast
  have joined: "messages_of (in_use buf @ concat (chunk # chunks)) =
      (fst (messages_of (in_use buf1)) @ fst (messages_of (in_use buf2 @ concat chunks)),
       snd (messages_of (in_use buf2 @ concat chunks)))"
    using messages_of_append [of "in_use buf1" "concat chunks"]
    by (simp add: use1 use2)
  show ?case
    using app ext rec use3 ok3 cap1 cap2 cap3 joined by simp
qed

lemma read_buffer_new_ok:
  "buffer_ok read_buffer_new" "in_use read_buffer_new = []"
  "capacity read_buffer_new = 65536"
  by (simp_all add: buffer_ok_def in_use_def read_buffer_new_def BUFFER_SIZE_def)

section \<open>The claims\<close>

text \<open>
  C1. The request \<^verbatim>\<open>{"jsonrpc":"2.0","id":1,"method":"tools/call","params":{}}\<close> has no
  \<open>params.name\<close>. The run goes on without a fault and the line written is a success
  envelope with the id, and the error object of code -32602, which has no id, is its
  \<open>result\<close>: \<^verbatim>\<open>handle_call_tool\<close> returns the error envelope as its result and
  \<^verbatim>\<open>handle_mcp_request\<close> wraps every result of a handler with
  \<^verbatim>\<open>create_success_response\<close>.
\<close>

theorem tools_call_missing_name_wrapped:
  "map_sum id stdout
     (process_mcp_message stub_env
        (Some (R_JSON_OBJECT
           [(''jsonrpc'', R_JSON_STRING ''2.0''), (''id'', R_JSON_INTEGER 1),
            (''method'', R_JSON_STRING ''tools/call''), (''params'', R_JSON_OBJECT [])]))
        stub_start) =
   Inr [R_JSON_OBJECT
          [(''jsonrpc'', R_JSON_STRING ''2.0''), (''id'', R_JSON_STRING ''1''),
           (''result'',
            R_JSON_OBJECT
              [(''jsonrpc'', R_JSON_STRING ''2.0''),
               (''error'',
                R_JSON_OBJECT
                  [(''code'', R_JSON_INTEGER (- 32602)),
                   (''message'', R_JSON_STRING ''Missing required parameter: name'')])])]]"
proof -
  have rid: "printf_d (int64 1) = ''1''"
    by (simp add: printf_d_def int64_def nat_dec_small digit_char_def)
  have call: "handle_mcp_request stub_env ''tools/call'' (Some (R_JSON_OBJECT [])) (Some ''1'')
      stub_start =
    Inr (create_success_response
           (Some (create_error_response (- 32602) ''Missing required parameter: name'' None None))
           (Some ''1''), stub_start)"
    using handle_mcp_request_tools_call
      [OF reachable_tools_capability [OF reachable_stub_start], of "''tools/call''" stub_env
        "Some (R_JSON_OBJECT [])" "Some ''1''"]
    by (simp add: handle_call_tool_no_name r_json_get_str_def)
  have out: "stdout stub_start = []"
    by (simp add: stub_start_eq)
  show ?thesis
    by (simp add: process_mcp_message_def r_json_get_str_def rid call out
          r_json_free_request_fields create_success_response_eq create_error_response_eq)
qed




text \<open>
  C3, as amended. A \<^verbatim>\<open>tools/list\<close> request with a cursor that is unparsable or that
  \<^verbatim>\<open>atoi\<close> reads as negative starts at index 0: the response is the success envelope
  whose result has the five tool descriptors of the table and no \<open>nextCursor\<close>. A cursor
  from the catalog length 5 upwards (as long as adding the page size stays in \<^verbatim>\<open>int\<close>)
  is not clamped: the page is empty. The state is unchanged.
\<close>

theorem tools_list_cursor_start:
  assumes "reachable E s" and "open_memstream_ok E"
      and "method = ''tools/list'' \<or> method = ''tool/list''"
      and "r_json_get_str params ''cursor'' = Some cursor"
  shows "(unparsable cursor \<or> atoi cursor < 0 \<longrightarrow>
            handle_mcp_request E method params rid s =
              Inr (R_JSON_OBJECT
                     ([(''jsonrpc'', R_JSON_STRING ''2.0'')] @
                      (case rid of None \<Rightarrow> [] | Some i \<Rightarrow> [(''id'', R_JSON_STRING i)]) @
                      [(''result'',
                        R_JSON_OBJECT
                          [(''tools'',
                            R_JSON_ARRAY
                              [R_JSON_OBJECT
                                 [(''name'', R_JSON_STRING ''openFile''),
                                  (''description'', R_JSON_STRING ''Open a file for analysis''),
                                  (''inputSchema'',
                                   PJ_RAW ''{\"type\":\"object\",\"properties\":{\"filePath\":{\"type\":\"string\",\"description\":\"Path to the file to open\"}},\"required\":[\"filePath\"]}'')],
                               R_JSON_OBJECT
                                 [(''name'', R_JSON_STRING ''closeFile''),
                                  (''description'', R_JSON_STRING ''Close the currently open file''),
                                  (''inputSchema'', PJ_RAW ''{\"type\":\"object\",\"properties\":{}}'')],
                               R_JSON_OBJECT
                                 [(''name'', R_JSON_STRING ''runCommand''),
                                  (''description'', R_JSON_STRING ''Run a radare2 command and get the output''),
                                  (''inputSchema'',
                                   PJ_RAW ''{\"type\":\"object\",\"properties\":{\"command\":{\"type\":\"string\",\"description\":\"Command to execute\"}},\"required\":[\"command\"]}'')],
                               R_JSON_OBJECT
                                 [(''name'', R_JSON_STRING ''analyze''),
                                  (''description'', R_JSON_STRING ''Run analysis on the current file''),
                                  (''inputSchema'',
                                   PJ_RAW ''{\"type\":\"object\",\"properties\":{\"level\":{\"type\":\"string\",\"description\":\"Analysis level (a, aa, aaa, aaaa)\"}},\"required\":[]}'')],
                               R_JSON_OBJECT
                                 [(''name'', R_JSON_STRING ''disassemble''),
                                  (''description'', R_JSON_STRING ''Disassemble instructions at a given address''),
                                  (''inputSchema'',
                                   PJ_RAW ''{\"type\":\"object\",\"properties\":{\"address\":{\"type\":\"string\",\"description\":\"Address to start disassembly\"},\"numInstructions\":{\"type\":\"integer\",\"description\":\"Number of instructions to disassemble\"}},\"required\":[\"address\"]}'')]])])]),
                   s)) \<and>
         (5 \<le> atoi cursor \<and> atoi cursor \<le> 2147483637 \<longrightarrow>
            handle_mcp_request E method params rid s =
              Inr (R_JSON_OBJECT
                     ([(''jsonrpc'', R_JSON_STRING ''2.0'')] @
                      (case rid of None \<Rightarrow> [] | Some i \<Rightarrow> [(''id'', R_JSON_STRING i)]) @
                      [(''result'',
                        R_JSON_OBJECT [(''tools'', R_JSON_ARRAY [])])]),
                   s))"
proof -
  have listed: "handle_mcp_request E method params rid s =
      Inr (create_success_response (Some (handle_list_tools E params)) rid, s)"
    using reachable_tools_capability [OF assms(1)] assms(3)
    by (rule handle_mcp_request_tools_list)
  have first: "handle_list_tools E params =
      R_JSON_OBJECT [(''tools'', R_JSON_ARRAY (map tool_entry tools_table))]"
    if "unparsable cursor \<or> atoi cursor < 0"
  proof -
    from that have "atoi cursor \<le> 0"
      using unparsable_atoi [of cursor] by auto
    with assms(2,4) show ?thesis
      by (simp add: handle_list_tools_first_page)
  qed
  have past: "handle_list_tools E params = R_JSON_OBJECT [(''tools'', R_JSON_ARRAY [])]"
    if "5 \<le> atoi cursor \<and> atoi cursor \<le> 2147483637"
    using assms(2,4) that by (simp add: handle_list_tools_past_end)
  show ?thesis
    unfolding listed create_success_response_eq
    using first past by (simp add: tools_page_eq)
qed

theorem tools_list_cursor_start_witness:
  "handle_mcp_request stub_env ''tools/list''
     (Some (R_JSON_OBJECT [(''cursor'', R_JSON_STRING ''-3'')])) (Some ''4'') stub_start =
     Inr (R_JSON_OBJECT
            [(''jsonrpc'', R_JSON_STRING ''2.0''), (''id'', R_JSON_STRING ''4''),
             (''result'',
              R_JSON_OBJECT
                [(''tools'',
                  R_JSON_ARRAY
                    [R_JSON_OBJECT
                       [(''name'', R_JSON_STRING ''openFile''),
                        (''description'', R_JSON_STRING ''Open a file for analysis''),
                        (''inputSchema'',
                         PJ_RAW ''{\"type\":\"object\",\"properties\":{\"filePath\":{\"type\":\"string\",\"description\":\"Path to the file to open\"}},\"required\":[\"filePath\"]}'')],
                     R_JSON_OBJECT
                       [(''name'', R_JSON_STRING ''closeFile''),
                        (''description'', R_JSON_STRING ''Close the currently open file''),
                        (''inputSchema'', PJ_RAW ''{\"type\":\"object\",\"properties\":{}}'')],
                     R_JSON_OBJECT
                       [(''name'', R_JSON_STRING ''runCommand''),
                        (''description'', R_JSON_STRING ''Run a radare2 command and get the output''),
                        (''inputSchema'',
                         PJ_RAW ''{\"type\":\"object\",\"properties\":{\"command\":{\"type\":\"string\",\"description\":\"Command to execute\"}},\"required\":[\"command\"]}'')],
                     R_JSON_OBJECT
                       [(''name'', R_JSON_STRING ''analyze''),
                        (''description'', R_JSON_STRING ''Run analysis on the current file''),
                        (''inputSchema'',
                         PJ_RAW ''{\"type\":\"object\",\"properties\":{\"level\":{\"type\":\"string\",\"description\":\"Analysis level (a, aa, aaa, aaaa)\"}},\"required\":[]}'')],
                     R_JSON_OBJECT
                       [(''name'', R_JSON_STRING ''disassemble''),
                        (''description'', R_JSON_STRING ''Disassemble instructions at a given address''),
                        (''inputSchema'',
                         PJ_RAW ''{\"type\":\"object\",\"properties\":{\"address\":{\"type\":\"string\",\"description\":\"Address to start disassembly\"},\"numInstructions\":{\"type\":\"integer\",\"description\":\"Number of instructions to disassemble\"}},\"required\":[\"address\"]}'')]])])],
          stub_start) \<and>
   handle_mcp_request stub_env ''tools/list''
     (Some (R_JSON_OBJECT [(''cursor'', R_JSON_STRING ''abc'')])) (Some ''5'') stub_start =
     Inr (R_JSON_OBJECT
            [(''jsonrpc'', R_JSON_STRING ''2.0''), (''id'', R_JSON_STRING ''5''),
             (''result'',
              R_JSON_OBJECT
                [(''tools'',
                  R_JSON_ARRAY
                    [R_JSON_OBJECT
                       [(''name'', R_JSON_STRING ''openFile''),
                        (''description'', R_JSON_STRING ''Open a file for analysis''),
                        (''inputSchema'',
                         PJ_RAW ''{\"type\":\"object\",\"properties\":{\"filePath\":{\"type\":\"string\",\"description\":\"Path to the file to open\"}},\"required\":[\"filePath\"]}'')],
                     R_JSON_OBJECT
                       [(''name'', R_JSON_STRING ''closeFile''),
                        (''description'', R_JSON_STRING ''Close the currently open file''),
                        (''inputSchema'', PJ_RAW ''{\"type\":\"object\",\"properties\":{}}'')],
                     R_JSON_OBJECT
                       [(''name'', R_JSON_STRING ''runCommand''),
                        (''description'', R_JSON_STRING ''Run a radare2 command and get the output''),
                        (''inputSchema'',
                         PJ_RAW ''{\"type\":\"object\",\"properties\":{\"command\":{\"type\":\"string\",\"description\":\"Command to execute\"}},\"required\":[\"command\"]}'')],
                     R_JSON_OBJECT
                       [(''name'', R_JSON_STRING ''analyze''),
                        (''description'', R_JSON_STRING ''Run analysis on the current file''),
                        (''inputSchema'',
                         PJ_RAW ''{\"type\":\"object\",\"properties\":{\"level\":{\"type\":\"string\",\"description\":\"Analysis level (a, aa, aaa, aaaa)\"}},\"required\":[]}'')],
                     R_JSON_OBJECT
                       [(''name'', R_JSON_STRING ''disassemble''),
                        (''description'', R_JSON_STRING ''Disassemble instructions at a given address''),
                        (''inputSchema'',
                         PJ_RAW ''{\"type\":\"object\",\"properties\":{\"address\":{\"type\":\"string\",\"description\":\"Address to start disassembly\"},\"numInstructions\":{\"type\":\"integer\",\"description\":\"Number of instructions to disassemble\"}},\"required\":[\"address\"]}'')]])])],
          stub_start) \<and>
   handle_mcp_request stub_env ''tool/list''
     (Some (R_JSON_OBJECT [(''cursor'', R_JSON_STRING ''7'')])) (Some ''6'') stub_start =
     Inr (R_JSON_OBJECT
            [(''jsonrpc'', R_JSON_STRING ''2.0''), (''id'', R_JSON_STRING ''6''),
             (''result'',
              R_JSON_OBJECT [(''tools'', R_JSON_ARRAY [])])],
          stub_start)"
proof -
  have ok: "open_memstream_ok stub_env"
    by (simp add: stub_env_def)
  have m1: "''tools/list'' = ''tools/list'' \<or> ''tools/list'' = ''tool/list''"
    by simp
  have m2: "''tool/list'' = ''tools/list'' \<or> ''tool/list'' = ''tool/list''"
    by simp
  have c: "r_json_get_str (Some (R_JSON_OBJECT [(''cursor'', R_JSON_STRING v)])) ''cursor'' =
      Some v" for v
    by (simp add: r_json_get_str_def)
  show ?thesis
    using tools_list_cursor_start [OF reachable_stub_start ok m1 c, of "''-3''" "Some ''4''"]
      tools_list_cursor_start [OF reachable_stub_start ok m1 c, of "''abc''" "Some ''5''"]
      tools_list_cursor_start [OF reachable_stub_start ok m2 c, of "''7''" "Some ''6''"]
    by (simp add: atoi_minus_3 atoi_7 unparsable_abc)
qed

text \<open>
  C3 as stated fails for the cursor \<open>7\<close>, which is greater than the catalog length: the
  page returned is empty, not the page that starts at the beginning of the catalog.
\<close>

theorem tools_list_cursor_past_end_counterexample:
  "handle_mcp_request stub_env ''tools/list''
     (Some (R_JSON_OBJECT [(''cursor'', R_JSON_STRING ''7'')])) (Some ''3'') stub_start =
     Inr (R_JSON_OBJECT
            [(''jsonrpc'', R_JSON_STRING ''2.0''), (''id'', R_JSON_STRING ''3''),
             (''result'',
              R_JSON_OBJECT [(''tools'', R_JSON_ARRAY [])])],
          stub_start) \<and>
   map tool_entry tools_table \<noteq> []"
proof -
  have ok: "open_memstream_ok stub_env"
    by (simp add: stub_env_def)
  have "handle_list_tools stub_env (Some (R_JSON_OBJECT [(''cursor'', R_JSON_STRING ''7'')])) =
      R_JSON_OBJECT [(''tools'', R_JSON_ARRAY [])]"
    using ok by (rule handle_list_tools_past_end [where c = "''7''"])
      (simp_all add: r_json_get_str_def atoi_7)
  moreover have "handle_mcp_request stub_env ''tools/list''
     (Some (R_JSON_OBJECT [(''cursor'', R_JSON_STRING ''7'')])) (Some ''3'') stub_start =
     Inr (create_success_response
        (Some (handle_list_tools stub_env
           (Some (R_JSON_OBJECT [(''cursor'', R_JSON_STRING ''7'')])))) (Some ''3''), stub_start)"
    using reachable_tools_capability [OF reachable_stub_start]
    by (rule handle_mcp_request_tools_list) simp
  ultimately show ?thesis
    by (simp add: tools_table_def create_success_response_eq)
qed

text \<open>
  C4. A \<^verbatim>\<open>tools/list\<close> (or \<^verbatim>\<open>tool/list\<close>) request with no string \<open>cursor\<close> in its params, in
  a state of a run and when the memory stream can be opened: the response is the success
  envelope, with the id when there is one, whose result has the one member \<open>tools\<close>, the
  array of the five descriptors \<open>openFile\<close>, \<open>closeFile\<close>, \<open>runCommand\<close>, \<open>analyze\<close> and
  \<open>disassemble\<close> in this order, each with its name, description and input schema; the
  result has no \<open>nextCursor\<close> member. The state is unchanged.
\<close>

theorem tools_list_without_cursor:
  assumes "reachable E s" and "open_memstream_ok E"
      and "method = ''tools/list'' \<or> method = ''tool/list''"
      and "r_json_get_str params ''cursor'' = None"
  shows "handle_mcp_request E method params rid s =
           Inr (R_JSON_OBJECT
                  ([(''jsonrpc'', R_JSON_STRING ''2.0'')] @
                   (case rid of None \<Rightarrow> [] | Some i \<Rightarrow> [(''id'', R_JSON_STRING i)]) @
                   [(''result'',
                     R_JSON_OBJECT
                       [(''tools'',
                         R_JSON_ARRAY
                           [R_JSON_OBJECT
                              [(''name'', R_JSON_STRING ''openFile''),
                               (''description'', R_JSON_STRING ''Open a file for analysis''),
                               (''inputSchema'',
                                PJ_RAW ''{\"type\":\"object\",\"properties\":{\"filePath\":{\"type\":\"string\",\"description\":\"Path to the file to open\"}},\"required\":[\"filePath\"]}'')],
                            R_JSON_OBJECT
                              [(''name'', R_JSON_STRING ''closeFile''),
                               (''description'', R_JSON_STRING ''Close the currently open file''),
                               (''inputSchema'', PJ_RAW ''{\"type\":\"object\",\"properties\":{}}'')],
                            R_JSON_OBJECT
                              [(''name'', R_JSON_STRING ''runCommand''),
                               (''description'', R_JSON_STRING ''Run a radare2 command and get the output''),
                               (''inputSchema'',
                                PJ_RAW ''{\"type\":\"object\",\"properties\":{\"command\":{\"type\":\"string\",\"description\":\"Command to execute\"}},\"required\":[\"command\"]}'')],
                            R_JSON_OBJECT
                              [(''name'', R_JSON_STRING ''analyze''),
                               (''description'', R_JSON_STRING ''Run analysis on the current file''),
                               (''inputSchema'',
                                PJ_RAW ''{\"type\":\"object\",\"properties\":{\"level\":{\"type\":\"string\",\"description\":\"Analysis level (a, aa, aaa, aaaa)\"}},\"required\":[]}'')],
                            R_JSON_OBJECT
                              [(''name'', R_JSON_STRING ''disassemble''),
                               (''description'', R_JSON_STRING ''Disassemble instructions at a given address''),
                               (''inputSchema'',
                                PJ_RAW ''{\"type\":\"object\",\"properties\":{\"address\":{\"type\":\"string\",\"description\":\"Address to start disassembly\"},\"numInstructions\":{\"type\":\"integer\",\"description\":\"Number of instructions to disassemble\"}},\"required\":[\"address\"]}'')]])])]),
                s)"
proof -
  have page: "handle_list_tools E params =
      R_JSON_OBJECT [(''tools'', R_JSON_ARRAY (map tool_entry tools_table))]"
    using assms(2,4) by (simp add: handle_list_tools_first_page)
  have "handle_mcp_request E method params rid s =
      Inr (create_success_response (Some (handle_list_tools E params)) rid, s)"
    using reachable_tools_capability [OF assms(1)] assms(3)
    by (rule handle_mcp_request_tools_list)
  then show ?thesis
    unfolding page create_success_response_eq by (simp add: tools_page_eq)
qed

theorem tools_list_without_cursor_witness:
  "reachable stub_env stub_start \<and> open_memstream_ok stub_env \<and>
   r_json_get_str (Some (R_JSON_OBJECT [])) ''cursor'' = None \<and>
   handle_mcp_request stub_env ''tools/list'' (Some (R_JSON_OBJECT [])) (Some ''2'') stub_start =
     Inr (R_JSON_OBJECT
            [(''jsonrpc'', R_JSON_STRING ''2.0''), (''id'', R_JSON_STRING ''2''),
             (''result'',
              R_JSON_OBJECT
                [(''tools'',
                  R_JSON_ARRAY
                    [R_JSON_OBJECT
                       [(''name'', R_JSON_STRING ''openFile''),
                        (''description'', R_JSON_STRING ''Open a file for analysis''),
                        (''inputSchema'',
                         PJ_RAW ''{\"type\":\"object\",\"properties\":{\"filePath\":{\"type\":\"string\",\"description\":\"Path to the file to open\"}},\"required\":[\"filePath\"]}'')],
                     R_JSON_OBJECT
                       [(''name'', R_JSON_STRING ''closeFile''),
                        (''description'', R_JSON_STRING ''Close the currently open file''),
                        (''inputSchema'', PJ_RAW ''{\"type\":\"object\",\"properties\":{}}'')],
                     R_JSON_OBJECT
                       [(''name'', R_JSON_STRING ''runCommand''),
                        (''description'', R_JSON_STRING ''Run a radare2 command and get the output''),
                        (''inputSchema'',
                         PJ_RAW ''{\"type\":\"object\",\"properties\":{\"command\":{\"type\":\"string\",\"description\":\"Command to execute\"}},\"required\":[\"command\"]}'')],
                     R_JSON_OBJECT
                       [(''name'', R_JSON_STRING ''analyze''),
                        (''description'', R_JSON_STRING ''Run analysis on the current file''),
                        (''inputSchema'',
                         PJ_RAW ''{\"type\":\"object\",\"properties\":{\"level\":{\"type\":\"string\",\"description\":\"Analysis level (a, aa, aaa, aaaa)\"}},\"required\":[]}'')],
                     R_JSON_OBJECT
                       [(''name'', R_JSON_STRING ''disassemble''),
                        (''description'', R_JSON_STRING ''Disassemble instructions at a given address''),
                        (''inputSchema'',
                         PJ_RAW ''{\"type\":\"object\",\"properties\":{\"address\":{\"type\":\"string\",\"description\":\"Address to start disassembly\"},\"numInstructions\":{\"type\":\"integer\",\"description\":\"Number of instructions to disassemble\"}},\"required\":[\"address\"]}'')]])])],
          stub_start)"
proof -
  have ok: "open_memstream_ok stub_env"
    by (simp add: stub_env_def)
  have none: "r_json_get_str (Some (R_JSON_OBJECT [])) ''cursor'' = None"
    by (simp add: r_json_get_str_def)
  have "''tools/list'' = ''tools/list'' \<or> ''tools/list'' = ''tool/list''"
    by simp
  from tools_list_without_cursor [OF reachable_stub_start ok this none, of "Some ''2''"]
  show ?thesis
    using reachable_stub_start ok none by simp
qed

text \<open>
  C5, as amended. When \<^verbatim>\<open>realloc\<close> succeeds, the buffer holds no complete message and no
  chunk is longer than the buffer's capacity, feeding a byte sequence in chunks (append,
  then extract until no message is left) yields the newline-terminated messages of the
  sequence in order and leaves its unterminated rest in use, whatever the chunks are: two
  ways of splitting the same sequence give the same messages and the same rest. An
  extraction from a well-formed buffer returns no message when no newline is in use;
  otherwise it returns the bytes before the first newline, and the bytes in use afterwards,
  at the start of the block, are those that followed the newline.
\<close>

theorem framing_chunk_independent:
  assumes "\<forall>n. realloc_ok n" and "buffer_ok buf" and "newline \<notin> set (in_use buf)"
      and "\<forall>chunk \<in> set chunks. length chunk \<le> capacity buf"
      and "\<forall>chunk \<in> set chunks'. length chunk \<le> capacity buf"
      and "concat chunks = concat chunks'"
  shows "(\<exists>b b'. direct_mode_reads realloc_ok buf chunks =
                  Some (fst (messages_of (in_use buf @ concat chunks)), b) \<and>
                direct_mode_reads realloc_ok buf chunks' =
                  Some (fst (messages_of (in_use buf @ concat chunks)), b') \<and>
                in_use b = snd (messages_of (in_use buf @ concat chunks)) \<and>
                in_use b' = in_use b) \<and>
         (\<forall>b0. buffer_ok b0 \<longrightarrow>
            (newline \<notin> set (in_use b0) \<longrightarrow> read_buffer_get_message b0 = None) \<and>
            (newline \<in> set (in_use b0) \<longrightarrow>
               (\<exists>msg b1. read_buffer_get_message b0 = Some (msg, b1) \<and>
                  newline \<notin> set msg \<and> in_use b0 = msg @ newline # in_use b1)))"
proof (intro conjI allI impI)
  from direct_mode_reads_spec [OF assms(1-4)]
  obtain b where one: "direct_mode_reads realloc_ok buf chunks =
      Some (fst (messages_of (in_use buf @ concat chunks)), b)"
    and rest: "in_use b = snd (messages_of (in_use buf @ concat chunks))"
    by blast
  from direct_mode_reads_spec [OF assms(1-3,5)]
  obtain b' where other: "direct_mode_reads realloc_ok buf chunks' =
      Some (fst (messages_of (in_use buf @ concat chunks')), b')"
    and rest': "in_use b' = snd (messages_of (in_use buf @ concat chunks'))"
    by blast
  show "\<exists>b b'. direct_mode_reads realloc_ok buf chunks =
                  Some (fst (messages_of (in_use buf @ concat chunks)), b) \<and>
                direct_mode_reads realloc_ok buf chunks' =
                  Some (fst (messages_of (in_use buf @ concat chunks)), b') \<and>
                in_use b = snd (messages_of (in_use buf @ concat chunks)) \<and>
                in_use b' = in_use b"
    using one other rest rest' assms(6) by simp
next
  fix b0
  assume "newline \<notin> set (in_use b0)"
  then show "read_buffer_get_message b0 = None"
    by (rule read_buffer_get_message_none)
next
  fix b0
  assume ok: "buffer_ok b0" and inside: "newline \<in> set (in_use b0)"
  from read_buffer_get_message_some [OF ok inside]
  obtain b1 where got: "read_buffer_get_message b0 =
      Some (takeWhile (\<lambda>x. x \<noteq> newline) (in_use b0), b1)"
    and rest: "in_use b1 = tl (dropWhile (\<lambda>x. x \<noteq> newline) (in_use b0))"
    by blast
  have "newline \<notin> set (takeWhile (\<lambda>x. x \<noteq> newline) (in_use b0))"
    by (auto dest: set_takeWhileD)
  moreover have "in_use b0 = takeWhile (\<lambda>x. x \<noteq> newline) (in_use b0) @ newline # in_use b1"
    using split_at_newline [OF inside] rest by simp
  ultimately show "\<exists>msg b1. read_buffer_get_message b0 = Some (msg, b1) \<and>
      newline \<notin> set msg \<and> in_use b0 = msg @ newline # in_use b1"
    using got by blast
qed

theorem framing_chunk_independent_witness:
  "map_option fst
     (direct_mode_reads (\<lambda>n. True) read_buffer_new
        [''ab'', [newline, CHR ''c''], [CHR ''d'', newline, CHR ''e'']]) =
     Some [''ab'', ''cd''] \<and>
   map_option fst
     (direct_mode_reads (\<lambda>n. True) read_buffer_new
        [''ab'' @ [newline] @ ''cd'' @ [newline] @ ''e'']) =
     Some [''ab'', ''cd''] \<and>
   map_option (\<lambda>r. in_use (snd r))
     (direct_mode_reads (\<lambda>n. True) read_buffer_new
        [''ab'', [newline, CHR ''c''], [CHR ''d'', newline, CHR ''e'']]) =
     Some ''e'' \<and>
   map_option (\<lambda>r. in_use (snd r))
     (direct_mode_reads (\<lambda>n. True) read_buffer_new
        [''ab'' @ [newline] @ ''cd'' @ [newline] @ ''e'']) =
     Some ''e'' \<and>
   map_option (\<lambda>r. (fst r, in_use (snd r)))
     (read_buffer_get_message
        \<lparr> data = ''ab'' @ [newline] @ ''c'', bsize = 4, capacity = 65536 \<rparr>) =
     Some (''ab'', ''c'')"
proof -
  let ?chunks = "[''ab'', [newline, CHR ''c''], [CHR ''d'', newline, CHR ''e'']]"
  let ?whole = "[''ab'' @ [newline] @ ''cd'' @ [newline] @ ''e'']"
  let ?b0 = "\<lparr> data = ''ab'' @ [newline] @ ''c'', bsize = 4, capacity = 65536 \<rparr>"
  have realloc: "\<forall>n. (\<lambda>n. True) n"
    by simp
  have drained: "newline \<notin> set (in_use read_buffer_new)"
    by (simp add: read_buffer_new_ok)
  have sizes: "\<forall>chunk \<in> set ?chunks. length chunk \<le> capacity read_buffer_new"
    "\<forall>chunk \<in> set ?whole. length chunk \<le> capacity read_buffer_new"
    by (simp_all add: read_buffer_new_ok)
  have same: "concat ?chunks = concat ?whole"
    by simp
  have msgs: "messages_of (in_use read_buffer_new @ concat ?chunks) = ([''ab'', ''cd''], ''e'')"
    by (simp add: read_buffer_new_ok newline_def)
  note all = framing_chunk_independent
    [OF realloc read_buffer_new_ok(1) drained sizes same]
  from all obtain b b' where
    one: "direct_mode_reads (\<lambda>n. True) read_buffer_new ?chunks =
      Some (fst (messages_of (in_use read_buffer_new @ concat ?chunks)), b)"
    and other: "direct_mode_reads (\<lambda>n. True) read_buffer_new ?whole =
      Some (fst (messages_of (in_use read_buffer_new @ concat ?chunks)), b')"
    and rest: "in_use b = snd (messages_of (in_use read_buffer_new @ concat ?chunks))"
    and rest': "in_use b' = in_use b"
    by blast
  have ok0: "buffer_ok ?b0"
    by (simp add: buffer_ok_def)
  have use0: "in_use ?b0 = ''ab'' @ newline # ''c''"
    by (simp add: in_use_def)
  then have "newline \<in> set (in_use ?b0)"
    by simp
  with all ok0 obtain msg b1 where got: "read_buffer_get_message ?b0 = Some (msg, b1)"
    and split: "in_use ?b0 = msg @ newline # in_use b1"
    by blast
  have "(''ab'' @ newline # ''c'' = msg @ newline # in_use b1) =
      (''ab'' = msg \<and> ''c'' = in_use b1)"
    by (rule append_Cons_eq_iff) (simp_all add: newline_def)
  moreover have "''ab'' @ newline # ''c'' = msg @ newline # in_use b1"
    using split unfolding use0 .
  ultimately have "''ab'' = msg \<and> ''c'' = in_use b1"
    by (rule iffD1)
  then have "msg = ''ab'' \<and> in_use b1 = ''c''"
    by (simp add: eq_commute)
  with got one other rest rest' msgs show ?thesis
    by simp
qed

text \<open>
  C5 as stated fails: 131073 bytes fed to a new buffer as chunks of 65536, 65536 and 1
  bytes give two messages, but appended at once they do not fit the block after its one
  doubling, and \<^verbatim>\<open>memcpy\<close> would write past its end.
\<close>

theorem append_whole_overflows_counterexample:
  "map_option fst
     (direct_mode_reads (\<lambda>n. True) read_buffer_new
        [replicate 65535 (CHR ''a'') @ [newline], replicate 65535 (CHR ''a'') @ [newline],
         ''a'']) =
     Some [replicate 65535 (CHR ''a''), replicate 65535 (CHR ''a'')] \<and>
   direct_mode_reads (\<lambda>n. True) read_buffer_new
     [(replicate 65535 (CHR ''a'') @ [newline]) @ (replicate 65535 (CHR ''a'') @ [newline]) @
      ''a''] = None"
proof
  let ?line = "replicate 65535 (CHR ''a'') @ [newline]"
  have plain: "newline \<notin> set (replicate 65535 (CHR ''a''))"
    by (simp add: newline_def)
  have "messages_of (replicate 65535 (CHR ''a'') @ newline # ''a'') =
      (replicate 65535 (CHR ''a'') # fst (messages_of ''a''), snd (messages_of ''a''))"
    using plain by (rule messages_of_line)
  then have last: "messages_of (?line @ ''a'') = ([replicate 65535 (CHR ''a'')], ''a'')"
    by (simp add: newline_def)
  have "messages_of (replicate 65535 (CHR ''a'') @ newline # (?line @ ''a'')) =
      (replicate 65535 (CHR ''a'') # fst (messages_of (?line @ ''a'')),
       snd (messages_of (?line @ ''a'')))"
    using plain by (rule messages_of_line)
  then have msgs: "messages_of (?line @ ?line @ ''a'') =
      ([replicate 65535 (CHR ''a''), replicate 65535 (CHR ''a'')], ''a'')"
    unfolding last by simp
  have sizes: "\<forall>chunk \<in> set [?line, ?line, ''a'']. length chunk \<le> capacity read_buffer_new"
    by (simp add: read_buffer_new_ok)
  have "\<forall>n. (\<lambda>n. True) n" by simp
  from direct_mode_reads_spec [OF this read_buffer_new_ok(1) _ sizes]
  obtain b where "direct_mode_reads (\<lambda>n. True) read_buffer_new [?line, ?line, ''a''] =
      Some (fst (messages_of (in_use read_buffer_new @ concat [?line, ?line, ''a''])), b)"
    by (auto simp add: read_buffer_new_ok)
  then show "map_option fst
     (direct_mode_reads (\<lambda>n. True) read_buffer_new [?line, ?line, ''a'']) =
     Some [replicate 65535 (CHR ''a''), replicate 65535 (CHR ''a'')]"
    using msgs by (simp add: read_buffer_new_ok)
next
  show "direct_mode_reads (\<lambda>n. True) read_buffer_new
     [(replicate 65535 (CHR ''a'') @ [newline]) @ (replicate 65535 (CHR ''a'') @ [newline]) @
      ''a''] = None"
    by (simp add: read_buffer_append_def buffer_write_def read_buffer_new_def BUFFER_SIZE_def
          Let_def)
qed


text \<open>
  C6. \<^verbatim>\<open>runCommand\<close>, \<^verbatim>\<open>analyze\<close> or \<^verbatim>\<open>disassemble\<close> called through \<^verbatim>\<open>tools/call\<close>
  (or \<^verbatim>\<open>tool/call\<close>) in a state of a run while no file is open: the response is the
  JSON-RPC success envelope, with the id when there is one, whose result is the tool-error
  object with the text below and \<open>isError\<close> true. The globals are unchanged; the core in
  particular, so no call was made on the backend.
\<close>

theorem no_file_open_tool_error:
  assumes "reachable E s"
      and "method = ''tools/call'' \<or> method = ''tool/call''"
      and "r_json_get_str params ''name'' = Some tool_name"
      and "tool_name = ''runCommand'' \<or> tool_name = ''analyze'' \<or> tool_name = ''disassemble''"
      and "\<not> file_opened s"
  shows "handle_mcp_request E method params rid s =
           Inr (R_JSON_OBJECT
                  ([(''jsonrpc'', R_JSON_STRING ''2.0'')] @
                   (case rid of None \<Rightarrow> [] | Some i \<Rightarrow> [(''id'', R_JSON_STRING i)]) @
                   [(''result'',
                     R_JSON_OBJECT
                       [(''content'',
                         R_JSON_ARRAY
                           [R_JSON_OBJECT
                              [(''type'', R_JSON_STRING ''text''),
                               (''text'',
                                R_JSON_STRING ''No file is currently open. Please open a file first.'')]]),
                        (''isError'', R_JSON_BOOLEAN True)])]),
                s)"
proof -
  have "handle_call_tool E params s =
      (create_tool_error_response ''No file is currently open. Please open a file first.'', s)"
    using assms(3-5) by (rule handle_call_tool_no_file)
  then show ?thesis
    using handle_mcp_request_tools_call [OF reachable_tools_capability [OF assms(1)] assms(2)]
    by (simp add: create_tool_error_response_eq create_success_response_eq)
qed

theorem no_file_open_tool_error_witness:
  "reachable stub_env stub_start \<and> \<not> file_opened stub_start \<and>
   handle_mcp_request stub_env ''tools/call''
     (Some (R_JSON_OBJECT
        [(''name'', R_JSON_STRING ''runCommand''),
         (''arguments'', R_JSON_OBJECT [(''command'', R_JSON_STRING ''i'')])]))
     (Some ''7'') stub_start =
   Inr (R_JSON_OBJECT
          [(''jsonrpc'', R_JSON_STRING ''2.0''), (''id'', R_JSON_STRING ''7''),
           (''result'',
            R_JSON_OBJECT
              [(''content'',
                R_JSON_ARRAY
                  [R_JSON_OBJECT
                     [(''type'', R_JSON_STRING ''text''),
                      (''text'',
                       R_JSON_STRING ''No file is currently open. Please open a file first.'')]]),
               (''isError'', R_JSON_BOOLEAN True)])],
        stub_start)"
proof -
  let ?params = "Some (R_JSON_OBJECT
        [(''name'', R_JSON_STRING ''runCommand''),
         (''arguments'', R_JSON_OBJECT [(''command'', R_JSON_STRING ''i'')])])"
  have m: "''tools/call'' = ''tools/call'' \<or> ''tools/call'' = ''tool/call''"
    by simp
  have tool: "r_json_get_str ?params ''name'' = Some ''runCommand''"
    by (simp add: r_json_get_str_def)
  have known: "''runCommand'' = ''runCommand'' \<or> ''runCommand'' = ''analyze'' \<or>
      ''runCommand'' = ''disassemble''"
    by simp
  have closed: "\<not> file_opened stub_start"
    by (simp add: stub_start_eq)
  from no_file_open_tool_error [OF reachable_stub_start m tool known closed, of "Some ''7''"]
  show ?thesis
    using reachable_stub_start closed by simp
qed

text \<open>
  C7. A \<^verbatim>\<open>ping\<close> request: the response is the success envelope, with the id when there is
  one, whose result is the empty object, whatever the params, the id and the state; the
  globals (server state with the \<open>initialized\<close> flag and the client pointers, backend,
  current file, output) are returned as they were.
\<close>

theorem ping_empty_result_state_unchanged:
  "handle_mcp_request E ''ping'' params rid s =
     Inr (R_JSON_OBJECT
            ([(''jsonrpc'', R_JSON_STRING ''2.0'')] @
             (case rid of None \<Rightarrow> [] | Some i \<Rightarrow> [(''id'', R_JSON_STRING i)]) @
             [(''result'',
               R_JSON_OBJECT [])]),
          s)"
  by (simp add: handle_mcp_request_ping create_success_response_eq)

text \<open>
  C8. \<^verbatim>\<open>disassemble\<close> with an address and a \<open>numInstructions\<close> argument that is present but
  is not an integer, while a file is open: the command sent to the backend is
  \<^verbatim>\<open>pd 10 @ <address>\<close> (cut to the 127 characters of \<^verbatim>\<open>cmd\<close>), and the response is the
  success envelope around the text result with the backend's answer (no \<open>text\<close> member
  when the backend gives none), not an error.
\<close>

theorem disassemble_non_integer_count:
  assumes "reachable E s"
      and "method = ''tools/call'' \<or> method = ''tool/call''"
      and "r_json_get_str params ''name'' = Some ''disassemble''"
      and "r_json_get_str (r_json_get params ''arguments'') ''address'' = Some address"
      and "r_json_get (r_json_get params ''arguments'') ''numInstructions'' = Some v"
      and "\<not> is_R_JSON_INTEGER v"
      and "file_opened s" and "r_core s = Some h"
  shows "handle_mcp_request E method params rid s =
    Inr (R_JSON_OBJECT
           ([(''jsonrpc'', R_JSON_STRING ''2.0'')] @
            (case rid of None \<Rightarrow> [] | Some i \<Rightarrow> [(''id'', R_JSON_STRING i)]) @
            [(''result'',
              R_JSON_OBJECT
                [(''content'',
                  R_JSON_ARRAY
                    [R_JSON_OBJECT
                       ([(''type'', R_JSON_STRING ''text'')] @
                        (case r_core_cmd_str_out E h (take 127 (''pd 10 @ '' @ address)) of
                           None \<Rightarrow> []
                         | Some t \<Rightarrow> [(''text'', R_JSON_STRING t)]))])])]),
         s\<lparr> r_core := Some (h @ [R_core_cmd_str (take 127 (''pd 10 @ '' @ address))]) \<rparr>)"
proof -
  from assms(6)
  have count: "(case Some v of Some (R_JSON_INTEGER u_value) \<Rightarrow> int32 u_value | _ \<Rightarrow> 10) = 10"
    by (cases v) simp_all
  have "handle_call_tool E params s =
    (create_tool_text_response (r_core_cmd_str_out E h (take 127 (''pd 10 @ '' @ address))),
     s\<lparr> r_core := Some (h @ [R_core_cmd_str (take 127 (''pd 10 @ '' @ address))]) \<rparr>)"
    unfolding handle_call_tool_disassemble [OF assms(3,7)] assms(4,5) count
    by (simp add: Let_def printf_d_10 r2_cmd_Some [OF assms(8,7)])
  then show ?thesis
    using handle_mcp_request_tools_call [OF reachable_tools_capability [OF assms(1)] assms(2)]
    by (simp add: create_tool_text_response_eq create_success_response_eq)
qed

theorem disassemble_non_integer_count_witness:
  "handle_mcp_request stub_env ''tools/call''
     (Some (R_JSON_OBJECT
        [(''name'', R_JSON_STRING ''disassemble''),
         (''arguments'',
          R_JSON_OBJECT
            [(''address'', R_JSON_STRING ''main''),
             (''numInstructions'', R_JSON_STRING ''5'')])]))
     (Some ''b'') stub_opened =
   Inr (R_JSON_OBJECT
          [(''jsonrpc'', R_JSON_STRING ''2.0''), (''id'', R_JSON_STRING ''b''),
           (''result'',
            R_JSON_OBJECT
              [(''content'',
                R_JSON_ARRAY
                  [R_JSON_OBJECT
                     [(''type'', R_JSON_STRING ''text''),
                      (''text'', R_JSON_STRING ''ok'')]])])],
        stub_opened\<lparr> r_core := Some
          [R_config_set_i ''scr.color'' 0, R_core_cmd0 ''e bin.relocs.apply=true'',
           R_core_cmd0 ''e bin.cache=true'', R_core_cmd_str ''o /bin/ls'', R_core_cmd0 ''ob'',
           R_core_cmd_str ''pd 10 @ main''] \<rparr>)"
proof -
  let ?params = "Some (R_JSON_OBJECT
        [(''name'', R_JSON_STRING ''disassemble''),
         (''arguments'',
          R_JSON_OBJECT
            [(''address'', R_JSON_STRING ''main''),
             (''numInstructions'', R_JSON_STRING ''5'')])])"
  have m: "''tools/call'' = ''tools/call'' \<or> ''tools/call'' = ''tool/call''"
    by simp
  have tool: "r_json_get_str ?params ''name'' = Some ''disassemble''"
    by (simp add: r_json_get_str_def)
  have address: "r_json_get_str (r_json_get ?params ''arguments'') ''address'' = Some ''main''"
    by (simp add: r_json_get_str_def)
  have count: "r_json_get (r_json_get ?params ''arguments'') ''numInstructions'' =
      Some (R_JSON_STRING ''5'')"
    by simp
  have not_int: "\<not> is_R_JSON_INTEGER (R_JSON_STRING ''5'')"
    by simp
  show ?thesis
    using disassemble_non_integer_count
      [OF reachable_stub_opened m tool address count not_int stub_opened_fields, of "Some ''b''"]
    by (simp add: stub_env_def)
qed

text \<open>
  C9. \<^verbatim>\<open>openFile\<close> while a file is open, in a state of a run. The call does what it does
  from the state in which the previous file has been closed (\<^verbatim>\<open>o-*\<close> sent, \<open>file_opened\<close>
  and \<open>current_file\<close> cleared): the core receives \<^verbatim>\<open>o-*\<close> before the settings and the
  \<^verbatim>\<open>o <path>\<close> command. The response is the success envelope around the text result
  \<open>File opened successfully.\<close> or \<open>Failed to open file.\<close>, and which of the two is decided
  by the answers for the new file alone: a non-empty answer to \<^verbatim>\<open>o <path>\<close>, or else the
  answer of \<^verbatim>\<open>r_core_file_open\<close>. Afterwards \<open>file_opened\<close> and \<open>current_file\<close> describe
  the new file, or stay cleared when it could not be opened; the server state and the
  output are as before.
\<close>

theorem open_file_closes_previous_first:
  assumes "reachable E s"
      and "method = ''tools/call'' \<or> method = ''tool/call''"
      and "r_json_get_str params ''name'' = Some ''openFile''"
      and "r_json_get_str (r_json_get params ''arguments'') ''filePath'' = Some filepath"
      and "file_opened s" and "r_core s = Some h"
  shows "handle_mcp_request E method params rid s =
           handle_mcp_request E method params rid (close_current_file s) \<and>
         handle_mcp_request E method params rid s =
           Inr (R_JSON_OBJECT
                  ([(''jsonrpc'', R_JSON_STRING ''2.0'')] @
                   (case rid of None \<Rightarrow> [] | Some i \<Rightarrow> [(''id'', R_JSON_STRING i)]) @
                   [(''result'',
                     R_JSON_OBJECT
                       [(''content'',
                         R_JSON_ARRAY
                           [R_JSON_OBJECT
                              [(''type'', R_JSON_STRING ''text''),
                               (''text'',
                                R_JSON_STRING
                                  (if fst (r2_open_file E filepath (close_current_file s))
                                   then ''File opened successfully.'' else ''Failed to open file.''))]])])]),
                snd (r2_open_file E filepath (close_current_file s))) \<and>
         fst (r2_open_file E filepath (close_current_file s)) =
           ((case r_core_cmd_str_out E
                   (h @ [R_core_cmd0 ''o-*'', R_core_cmd0 ''e bin.relocs.apply=true'',
                         R_core_cmd0 ''e bin.cache=true''])
                   (take 1023 (''o '' @ filepath)) of
               None \<Rightarrow> False | Some r \<Rightarrow> 0 < length r) \<or>
            r_core_file_open_ok E
              (h @ [R_core_cmd0 ''o-*'', R_core_cmd0 ''e bin.relocs.apply=true'',
                    R_core_cmd0 ''e bin.cache=true'',
                    R_core_cmd_str (take 1023 (''o '' @ filepath))])
              filepath) \<and>
         file_opened (snd (r2_open_file E filepath (close_current_file s))) =
           fst (r2_open_file E filepath (close_current_file s)) \<and>
         current_file (snd (r2_open_file E filepath (close_current_file s))) =
           (if fst (r2_open_file E filepath (close_current_file s))
            then take 1023 filepath else []) \<and>
         (\<exists>calls. r_core (snd (r2_open_file E filepath (close_current_file s))) =
            Some (h @ [R_core_cmd0 ''o-*'', R_core_cmd0 ''e bin.relocs.apply=true'',
                       R_core_cmd0 ''e bin.cache=true'',
                       R_core_cmd_str (take 1023 (''o '' @ filepath))] @ calls)) \<and>
         server_state (snd (r2_open_file E filepath (close_current_file s))) = server_state s \<and>
         stdout (snd (r2_open_file E filepath (close_current_file s))) = stdout s"
proof -
  have same: "r2_open_file E filepath s = r2_open_file E filepath (close_current_file s)"
    using assms(5,6) by (rule r2_open_file_closes_first)
  have tools: "check_server_capability ''tools'' s"
    using assms(1) by (rule reachable_tools_capability)
  then have tools': "check_server_capability ''tools'' (close_current_file s)"
    by (simp add: check_server_capability_def close_current_file_def r_core_cmd0_def)
  have call: "handle_mcp_request E method params rid s =
      Inr (create_success_response
         (Some (create_tool_text_response
            (Some (if fst (r2_open_file E filepath s)
                   then ''File opened successfully.'' else ''Failed to open file.'')))) rid,
       snd (r2_open_file E filepath s))"
    unfolding handle_mcp_request_tools_call [OF tools assms(2)]
      handle_call_tool_openFile [OF assms(3)] assms(4)
    by simp
  have call': "handle_mcp_request E method params rid (close_current_file s) =
      Inr (create_success_response
         (Some (create_tool_text_response
            (Some (if fst (r2_open_file E filepath (close_current_file s))
                   then ''File opened successfully.'' else ''Failed to open file.'')))) rid,
       snd (r2_open_file E filepath (close_current_file s)))"
    unfolding handle_mcp_request_tools_call [OF tools' assms(2)]
      handle_call_tool_openFile [OF assms(3)] assms(4)
    by simp
  have frame: "server_state (snd (r2_open_file E filepath s)) = server_state s"
    "stdout (snd (r2_open_file E filepath s)) = stdout s"
    by (rule r2_open_file_frame)+
  show ?thesis
    using r2_open_file_closed_result [OF assms(5,6), of E filepath] frame
    unfolding call call' same [symmetric]
    by (simp add: create_tool_text_response_eq create_success_response_eq)
qed

theorem open_file_closes_previous_first_witness:
  "handle_mcp_request stub_env ''tools/call''
     (Some (R_JSON_OBJECT
        [(''name'', R_JSON_STRING ''openFile''),
         (''arguments'', R_JSON_OBJECT [(''filePath'', R_JSON_STRING ''/nonexistent'')])]))
     (Some ''c'') stub_opened =
   Inr (R_JSON_OBJECT
          [(''jsonrpc'', R_JSON_STRING ''2.0''), (''id'', R_JSON_STRING ''c''),
           (''result'',
            R_JSON_OBJECT
              [(''content'',
                R_JSON_ARRAY
                  [R_JSON_OBJECT
                     [(''type'', R_JSON_STRING ''text''),
                      (''text'', R_JSON_STRING ''Failed to open file.'')]])])],
        stub_opened\<lparr> r_core := Some
          [R_config_set_i ''scr.color'' 0, R_core_cmd0 ''e bin.relocs.apply=true'',
           R_core_cmd0 ''e bin.cache=true'', R_core_cmd_str ''o /bin/ls'', R_core_cmd0 ''ob'',
           R_core_cmd0 ''o-*'', R_core_cmd0 ''e bin.relocs.apply=true'',
           R_core_cmd0 ''e bin.cache=true'', R_core_cmd_str ''o /nonexistent'',
           R_core_file_open ''/nonexistent''],
          file_opened := False, current_file := [] \<rparr>)"
proof -
  let ?params = "Some (R_JSON_OBJECT
        [(''name'', R_JSON_STRING ''openFile''),
         (''arguments'', R_JSON_OBJECT [(''filePath'', R_JSON_STRING ''/nonexistent'')])])"
  let ?h = "[R_config_set_i ''scr.color'' 0, R_core_cmd0 ''e bin.relocs.apply=true'',
            R_core_cmd0 ''e bin.cache=true'', R_core_cmd_str ''o /bin/ls'', R_core_cmd0 ''ob'']"
  have m: "''tools/call'' = ''tools/call'' \<or> ''tools/call'' = ''tool/call''"
    by simp
  have tool: "r_json_get_str ?params ''name'' = Some ''openFile''"
    by (simp add: r_json_get_str_def)
  have path: "r_json_get_str (r_json_get ?params ''arguments'') ''filePath'' =
      Some ''/nonexistent''"
    by (simp add: r_json_get_str_def)
  have closed: "r_core (close_current_file stub_opened) = Some (?h @ [R_core_cmd0 ''o-*''])"
    "\<not> file_opened (close_current_file stub_opened)"
    by (simp_all add: close_current_file_def r_core_cmd0_def stub_opened_fields)
  have attempt: "r2_open_file stub_env ''/nonexistent'' (close_current_file stub_opened) =
    (False, (close_current_file stub_opened)\<lparr> r_core := Some
      (?h @ [R_core_cmd0 ''o-*'', R_core_cmd0 ''e bin.relocs.apply=true'',
       R_core_cmd0 ''e bin.cache=true'', R_core_cmd_str ''o /nonexistent'',
       R_core_file_open ''/nonexistent'']) \<rparr>)"
    unfolding r2_open_file_Some [OF closed(1)]
    using closed(2) by (simp add: stub_env_def)
  from open_file_closes_previous_first
    [OF reachable_stub_opened m tool path stub_opened_fields, of "Some ''c''"]
  have "handle_mcp_request stub_env ''tools/call'' ?params (Some ''c'') stub_opened =
      Inr (R_JSON_OBJECT
            ([(''jsonrpc'', R_JSON_STRING ''2.0'')] @
             (case Some ''c'' of None \<Rightarrow> [] | Some i \<Rightarrow> [(''id'', R_JSON_STRING i)]) @
             [(''result'',
               R_JSON_OBJECT
                 [(''content'',
                   R_JSON_ARRAY
                     [R_JSON_OBJECT
                        [(''type'', R_JSON_STRING ''text''),
                         (''text'',
                          R_JSON_STRING
                            (if fst (r2_open_file stub_env ''/nonexistent''
                                       (close_current_file stub_opened))
                             then ''File opened successfully.''
                             else ''Failed to open file.''))]])])]),
           snd (r2_open_file stub_env ''/nonexistent'' (close_current_file stub_opened)))"
    by (elim conjE)
  then show ?thesis
    unfolding attempt
    by (simp add: close_current_file_def r_core_cmd0_def stub_opened_fields)
qed

text \<open>
  C10. For every method, params and id the dispatcher has the same outcome from the
  globals with the \<open>initialized\<close> flag true and with the flag false: the same response,
  or the same fault.
\<close>

theorem response_independent_of_initialized:
  "map_sum id fst (handle_mcp_request E method params rid (with_initialized True s)) =
   map_sum id fst (handle_mcp_request E method params rid (with_initialized False s))"
  by (simp add: handle_mcp_request_with_initialized)

end
